theory Spec2Isabelle
  imports Main "HOL-Library.AList"
begin

section \<open>Persistent store\<close>

text \<open>
  The relational store of the indexer, one list of rows per table, in insertion order.
  JavaScript numbers and bigint strings are integers here. Every table has a uuid primary
  key that the service never computes with; a \<open>users\<close> row is identified by its
  \<open>address\<close> (a unique column), so the relation columns \<open>buyer\<close>, \<open>winner\<close>
  and \<open>user\<close> hold that address. Dates are milliseconds. Addresses, token names and
  transaction hashes are taken as the chain hands them over, within the 255 characters
  of their columns.
\<close>

datatype error =
    QueryFailedError string  \<comment> \<open>carries \<open>driverError.code\<close>\<close>
  | Error string

record TicketPurchase =
  tp_buyer :: string
  tp_token :: string
  tp_roundId :: int
  tp_chainId :: int
  tp_contractAddress :: string
  tp_count :: int
  tp_totalAmount :: int
  tp_blockTimestamp :: int
  tp_transactionHash :: string
  tp_logIndex :: int

record FirstTicketBonus =
  ftb_buyer :: string
  ftb_token :: string
  ftb_roundId :: int
  ftb_chainId :: int
  ftb_contractAddress :: string
  ftb_blockTimestamp :: int
  ftb_transactionHash :: string
  ftb_logIndex :: int

record Round =
  rd_contractAddress :: string
  rd_token :: string
  rd_roundId :: int
  rd_chainId :: int
  rd_startTime :: int
  rd_endTime :: int
  rd_prizeAmount :: "int option"
  rd_commissionAmount :: "int option"
  rd_prizeClaimed :: bool

record WinEvent =
  we_winner :: string
  we_token :: string
  we_roundId :: int
  we_chainId :: int
  we_contractAddress :: string
  we_amount :: int
  we_players :: "string list"
  we_ticketId :: int
  we_blockTimestamp :: int
  we_transactionHash :: string
  we_logIndex :: int

record UserRoundStats =
  urs_user :: string
  urs_token :: string
  urs_roundId :: int
  urs_contractAddress :: string
  urs_ticketCount :: int
  urs_isConsecutive :: bool
  urs_consecutiveRounds :: int
  urs_totalWins :: int
  urs_roundTimestamp :: int

record store =
  users :: "string list"
  ticketPurchases :: "TicketPurchase list"
  firstTicketBonuses :: "FirstTicketBonus list"
  rounds :: "Round list"
  winEvents :: "WinEvent list"
  userRoundStats :: "UserRoundStats list"
  blockchainSync :: "((string \<times> string) \<times> int) list"

definition emptyStore :: store where
  "emptyStore = \<lparr>users = [], ticketPurchases = [], firstTicketBonuses = [], rounds = [],
     winEvents = [], userRoundStats = [], blockchainSync = []\<rparr>"

subsection \<open>Column types\<close>

text \<open>
  The columns \<open>roundId\<close>, \<open>chainId\<close>, \<open>count\<close>, \<open>logIndex\<close>, \<open>ticketCount\<close>,
  \<open>consecutiveRounds\<close> and \<open>totalWins\<close> are PostgreSQL \<open>integer\<close>: a write of a
  value outside 32 bits fails with code 22003. A \<open>TIMESTAMP\<close> column is written from a
  JavaScript \<open>Date\<close>, which is invalid beyond 8.64e15 milliseconds from the epoch; the
  write of an invalid date fails with code 22007. Either failure is a
  \<open>QueryFailedError\<close> and is found before the unique indexes are looked at.
\<close>

definition int4 :: "int \<Rightarrow> bool" where
  "int4 n \<longleftrightarrow> - 2147483648 \<le> n \<and> n \<le> 2147483647"

definition validDate :: "int \<Rightarrow> bool" where
  "validDate ms \<longleftrightarrow> - 8640000000000000 \<le> ms \<and> ms \<le> 8640000000000000"

definition numericValueOutOfRange :: error where
  "numericValueOutOfRange = QueryFailedError ''22003''"

definition invalidDatetime :: error where
  "invalidDatetime = QueryFailedError ''22007''"

definition columnCheck :: "int list \<Rightarrow> int list \<Rightarrow> error option" where
  "columnCheck integers dates =
     (if \<not> list_all int4 integers then Some numericValueOutOfRange
      else if \<not> list_all validDate dates then Some invalidDatetime
      else None)"

text \<open>
  \<open>getNumber\<close> of ethers and \<open>toNumber\<close> of a big number throw when the value does
  not fit the 53 bits of a safe JavaScript integer.
\<close>

definition getNumber :: "int \<Rightarrow> error + int" where
  "getNumber v =
     (if - 9007199254740991 \<le> v \<and> v \<le> 9007199254740991 then Inr v else Inl (Error ''overflow''))"

definition toNumber :: "int \<Rightarrow> error + int" where
  "toNumber v =
     (if - 9007199254740991 \<le> v \<and> v \<le> 9007199254740991 then Inr v
      else Inl (Error ''Number can only safely store up to 53 bits''))"

subsection \<open>Repository operations\<close>

text \<open>
  \<open>save\<close> of an entity without id is an INSERT. The tables \<open>ticket_purchases\<close>,
  \<open>first_ticket_bonuses\<close> and \<open>win_events\<close> carry a unique index on
  \<open>(transactionHash, logIndex)\<close>; an insert that collides fails with PostgreSQL code 23505.
  The table \<open>rounds\<close> has no unique index besides its primary key.
\<close>

definition duplicateKey :: error where
  "duplicateKey = QueryFailedError ''23505''"

definition ticketPurchaseRepository_save :: "TicketPurchase \<Rightarrow> store \<Rightarrow> error + store" where
  "ticketPurchaseRepository_save r s =
     (case columnCheck [tp_roundId r, tp_chainId r, tp_count r, tp_logIndex r] [tp_blockTimestamp r] of
        Some err \<Rightarrow> Inl err
      | None \<Rightarrow>
         (case find (\<lambda>x. tp_transactionHash x = tp_transactionHash r \<and> tp_logIndex x = tp_logIndex r)
                 (ticketPurchases s) of
            Some _ \<Rightarrow> Inl duplicateKey
          | None \<Rightarrow> Inr (s\<lparr>ticketPurchases := ticketPurchases s @ [r]\<rparr>)))"

definition firstTicketBonusRepository_save :: "FirstTicketBonus \<Rightarrow> store \<Rightarrow> error + store" where
  "firstTicketBonusRepository_save r s =
     (case columnCheck [ftb_roundId r, ftb_chainId r, ftb_logIndex r] [ftb_blockTimestamp r] of
        Some err \<Rightarrow> Inl err
      | None \<Rightarrow>
         (case find (\<lambda>x. ftb_transactionHash x = ftb_transactionHash r \<and> ftb_logIndex x = ftb_logIndex r)
                 (firstTicketBonuses s) of
            Some _ \<Rightarrow> Inl duplicateKey
          | None \<Rightarrow> Inr (s\<lparr>firstTicketBonuses := firstTicketBonuses s @ [r]\<rparr>)))"

definition winEventRepository_save :: "WinEvent \<Rightarrow> store \<Rightarrow> error + store" where
  "winEventRepository_save r s =
     (case columnCheck [we_roundId r, we_chainId r, we_logIndex r] [we_blockTimestamp r] of
        Some err \<Rightarrow> Inl err
      | None \<Rightarrow>
         (case find (\<lambda>x. we_transactionHash x = we_transactionHash r \<and> we_logIndex x = we_logIndex r)
                 (winEvents s) of
            Some _ \<Rightarrow> Inl duplicateKey
          | None \<Rightarrow> Inr (s\<lparr>winEvents := winEvents s @ [r]\<rparr>)))"

definition roundRepository_insert :: "Round \<Rightarrow> store \<Rightarrow> error + store" where
  "roundRepository_insert r s =
     (case columnCheck [rd_roundId r, rd_chainId r] [rd_startTime r, rd_endTime r] of
        Some err \<Rightarrow> Inl err
      | None \<Rightarrow> Inr (s\<lparr>rounds := rounds s @ [r]\<rparr>))"

text \<open>\<open>save\<close> of an entity that was loaded before is an UPDATE of that row.\<close>

fun replaceFirst :: "('a \<Rightarrow> bool) \<Rightarrow> 'a \<Rightarrow> 'a list \<Rightarrow> 'a list" where
  "replaceFirst P y [] = []"
| "replaceFirst P y (x # xs) = (if P x then y # xs else x # replaceFirst P y xs)"

definition sameStatsKey :: "string \<Rightarrow> string \<Rightarrow> int \<Rightarrow> string \<Rightarrow> UserRoundStats \<Rightarrow> bool" where
  "sameStatsKey user token roundId contractAddress r \<longleftrightarrow>
     urs_user r = user \<and> urs_token r = token \<and> urs_roundId r = roundId
       \<and> urs_contractAddress r = contractAddress"

definition userRoundStats_findOne ::
  "string \<Rightarrow> string \<Rightarrow> int \<Rightarrow> string \<Rightarrow> store \<Rightarrow> UserRoundStats option" where
  "userRoundStats_findOne user token roundId contractAddress s =
     find (sameStatsKey user token roundId contractAddress) (userRoundStats s)"

text \<open>
  The save of a user round stats row: an INSERT of all columns when the row is new, else
  an UPDATE of the counters the service changes. It runs outside any transaction, after
  the event row has been stored.
\<close>

definition userRoundStats_save :: "UserRoundStats \<Rightarrow> store \<Rightarrow> error + store" where
  "userRoundStats_save r s =
     (let k = sameStatsKey (urs_user r) (urs_token r) (urs_roundId r) (urs_contractAddress r)
      in case find k (userRoundStats s) of
           None \<Rightarrow>
             (case columnCheck [urs_roundId r, urs_ticketCount r, urs_consecutiveRounds r, urs_totalWins r]
                     [urs_roundTimestamp r] of
                Some err \<Rightarrow> Inl err
              | None \<Rightarrow> Inr (s\<lparr>userRoundStats := userRoundStats s @ [r]\<rparr>))
         | Some _ \<Rightarrow>
             (case columnCheck [urs_ticketCount r, urs_consecutiveRounds r, urs_totalWins r] [] of
                Some err \<Rightarrow> Inl err
              | None \<Rightarrow> Inr (s\<lparr>userRoundStats := replaceFirst k r (userRoundStats s)\<rparr>)))"

text \<open>
  The query for the previous round: rows of the same user, token and contract with a
  smaller round id, \<open>ORDER BY roundId DESC LIMIT 1\<close>.
\<close>

fun latestRound :: "UserRoundStats list \<Rightarrow> UserRoundStats option" where
  "latestRound [] = None"
| "latestRound (r # rs) =
     (case latestRound rs of
        None \<Rightarrow> Some r
      | Some m \<Rightarrow> if urs_roundId r < urs_roundId m then Some m else Some r)"

definition previousRoundQuery ::
  "string \<Rightarrow> string \<Rightarrow> string \<Rightarrow> int \<Rightarrow> store \<Rightarrow> UserRoundStats option" where
  "previousRoundQuery userId token contractAddress roundId s =
     latestRound (filter (\<lambda>r. urs_user r = userId \<and> urs_token r = token
                               \<and> urs_contractAddress r = contractAddress
                               \<and> urs_roundId r < roundId) (userRoundStats s))"

text \<open>\<open>getOrCreateUser\<close>: \<open>INSERT ... ON CONFLICT DO NOTHING\<close>, then a lookup by address.\<close>

definition getOrCreateUser :: "string \<Rightarrow> store \<Rightarrow> string \<times> store" where
  "getOrCreateUser address s =
     (if address \<in> set (users s) then (address, s)
      else (address, s\<lparr>users := users s @ [address]\<rparr>))"

subsection \<open>Sync cursor store\<close>

definition getLastSyncedBlock :: "string \<Rightarrow> string \<Rightarrow> store \<Rightarrow> int option" where
  "getLastSyncedBlock blockchainName contractAddress s =
     (case map_of (blockchainSync s) (blockchainName, contractAddress) of
        None \<Rightarrow> None
      | Some n \<Rightarrow> if n = 0 then None else Some n)"

text \<open>
  The three parameters are optional in the source; \<open>!blockNumber\<close> holds for 0 and
  \<open>!blockchainName\<close> for the empty string, and then nothing is written.
\<close>

definition updateLastSyncedBlock :: "string \<Rightarrow> string \<Rightarrow> int \<Rightarrow> store \<Rightarrow> store" where
  "updateLastSyncedBlock blockchainName contractAddress blockNumber s =
     (if blockNumber = 0 \<or> blockchainName = [] \<or> contractAddress = [] then s
      else s\<lparr>blockchainSync :=
               AList.update (blockchainName, contractAddress) blockNumber (blockchainSync s)\<rparr>)"

section \<open>Applying log events (EVM)\<close>

text \<open>
  The six trailing parameters that every handler receives from the log and the chain
  configuration.
\<close>

record log_ctx =
  chainId :: int
  transactionHash :: string
  blockNumber :: int
  blockchainName :: string
  contractAddress :: string
  logIndex :: int

text \<open>
  A handler returns the store it leaves behind together with the error it throws, if any:
  there is no database transaction around a handler, so writes made before a throw stay.
  Every handler ends in the same \<open>catch\<close>: a unique violation is logged and swallowed,
  anything else is thrown again.
\<close>

definition catchDuplicate :: "error \<Rightarrow> store \<Rightarrow> error option \<times> store" where
  "catchDuplicate err s = (if err = duplicateKey then (None, s) else (Some err, s))"

text \<open>
  The block ``find or create user round stats ... check for consecutive rounds
  participation ... save'' stands verbatim in \<open>processTicketPurchasedEvent\<close> and in
  \<open>processSolanaTicketPurchasedEvent\<close>; it is written once here. A created row takes the
  column default 0 for \<open>consecutiveRounds\<close>. The save at its end can fail, and then the
  event row stored before it stays.
\<close>

definition purchaseRoundStats ::
  "string \<Rightarrow> string \<Rightarrow> int \<Rightarrow> string \<Rightarrow> int \<Rightarrow> int \<Rightarrow> store \<Rightarrow> error + store" where
  "purchaseRoundStats user token roundId contractAddr count blockTimestamp s =
     (let found = userRoundStats_findOne user token roundId contractAddr s;
          previousRound = previousRoundQuery user token contractAddr roundId s;
          stats0 = (case found of
              None \<Rightarrow> \<lparr>urs_user = user, urs_token = token, urs_roundId = roundId,
                urs_contractAddress = contractAddr, urs_ticketCount = count,
                urs_isConsecutive = False, urs_consecutiveRounds = 0,
                urs_totalWins = (case previousRound of None \<Rightarrow> 0 | Some p \<Rightarrow> urs_totalWins p),
                urs_roundTimestamp = blockTimestamp\<rparr>
            | Some r \<Rightarrow> r\<lparr>urs_ticketCount := urs_ticketCount r + count\<rparr>);
          stats1 = (case previousRound of
              None \<Rightarrow> stats0\<lparr>urs_consecutiveRounds := 0\<rparr>
            | Some p \<Rightarrow>
                if urs_roundId p = roundId - 1
                then stats0\<lparr>urs_isConsecutive := True,
                       urs_consecutiveRounds :=
                         (if urs_isConsecutive p then urs_consecutiveRounds p + 1 else 1)\<rparr>
                else stats0\<lparr>urs_consecutiveRounds := 0\<rparr>)
      in userRoundStats_save stats1 s)"

text \<open>
  \<open>roundId\<close>, \<open>timestamp\<close> and the round times reach the handlers as the integers of
  the log (\<open>BigNumberish\<close>) and are converted inside the \<open>try\<close>.
\<close>

definition processTicketPurchasedEvent ::
  "string \<Rightarrow> int \<Rightarrow> string \<Rightarrow> int \<Rightarrow> int \<Rightarrow> int \<Rightarrow> log_ctx \<Rightarrow> store \<Rightarrow> error option \<times> store" where
  "processTicketPurchasedEvent token roundId buyer count totalAmount timestamp c s =
     (let (user, s1) = getOrCreateUser buyer s
      in case getNumber roundId of
           Inl err \<Rightarrow> catchDuplicate err s1
         | Inr roundIdNumber \<Rightarrow>
        (case getNumber timestamp of
           Inl err \<Rightarrow> catchDuplicate err s1
         | Inr seconds \<Rightarrow>
            (let blockTimestamp = seconds * 1000;
                 ticketPurchase = \<lparr>tp_buyer = user, tp_token = token, tp_roundId = roundIdNumber,
                   tp_chainId = chainId c, tp_contractAddress = contractAddress c, tp_count = count,
                   tp_totalAmount = totalAmount, tp_blockTimestamp = blockTimestamp,
                   tp_transactionHash = transactionHash c, tp_logIndex = logIndex c\<rparr>
             in case ticketPurchaseRepository_save ticketPurchase s1 of
                  Inl err \<Rightarrow> catchDuplicate err s1
                | Inr s2 \<Rightarrow>
                   (case purchaseRoundStats user token roundIdNumber (contractAddress c) count
                           blockTimestamp s2 of
                      Inl err \<Rightarrow> catchDuplicate err s2
                    | Inr s3 \<Rightarrow>
                        (None, updateLastSyncedBlock (blockchainName c) (contractAddress c)
                                 (blockNumber c) s3)))))"

text \<open>A round created from a log event leaves the amount columns NULL.\<close>

definition processFirstTicketBonusEvent ::
  "string \<Rightarrow> int \<Rightarrow> string \<Rightarrow> int \<Rightarrow> int \<Rightarrow> int \<Rightarrow> log_ctx \<Rightarrow> store \<Rightarrow> error option \<times> store" where
  "processFirstTicketBonusEvent token roundId buyer timestamp roundStartTime roundEndTime c s =
     (let (user, s1) = getOrCreateUser buyer s
      in case getNumber roundId of
           Inl err \<Rightarrow> catchDuplicate err s1
         | Inr roundIdNumber \<Rightarrow>
        (case getNumber roundStartTime of
           Inl err \<Rightarrow> catchDuplicate err s1
         | Inr startSeconds \<Rightarrow>
        (case getNumber roundEndTime of
           Inl err \<Rightarrow> catchDuplicate err s1
         | Inr endSeconds \<Rightarrow>
            (let round = \<lparr>rd_contractAddress = contractAddress c, rd_token = token,
                   rd_roundId = roundIdNumber, rd_chainId = chainId c,
                   rd_startTime = startSeconds * 1000, rd_endTime = endSeconds * 1000,
                   rd_prizeAmount = None, rd_commissionAmount = None, rd_prizeClaimed = False\<rparr>
             in case roundRepository_insert round s1 of
                  Inl err \<Rightarrow> catchDuplicate err s1
                | Inr s2 \<Rightarrow>
                   (case getNumber timestamp of
                      Inl err \<Rightarrow> catchDuplicate err s2
                    | Inr seconds \<Rightarrow>
                       (let firstTicketBonus = \<lparr>ftb_buyer = user, ftb_token = token,
                              ftb_roundId = roundIdNumber, ftb_chainId = chainId c,
                              ftb_contractAddress = contractAddress c,
                              ftb_blockTimestamp = seconds * 1000,
                              ftb_transactionHash = transactionHash c, ftb_logIndex = logIndex c\<rparr>
                        in case firstTicketBonusRepository_save firstTicketBonus s2 of
                             Inl err \<Rightarrow> catchDuplicate err s2
                           | Inr s3 \<Rightarrow>
                               (None, updateLastSyncedBlock (blockchainName c) (contractAddress c)
                                        (blockNumber c) s3)))))))"

text \<open>
  The block ``find or create user round stats'' of a winner stands verbatim in
  \<open>processWinnerPickedEvent\<close> and in \<open>processSolanaWinnerPickedEvent\<close>.
\<close>

definition winnerRoundStats ::
  "string \<Rightarrow> string \<Rightarrow> int \<Rightarrow> string \<Rightarrow> int \<Rightarrow> store \<Rightarrow> error + store" where
  "winnerRoundStats user token roundId contractAddr eventDate s =
     (let stats = (case userRoundStats_findOne user token roundId contractAddr s of
              None \<Rightarrow> \<lparr>urs_user = user, urs_token = token, urs_roundId = roundId,
                urs_contractAddress = contractAddr, urs_ticketCount = 0,
                urs_isConsecutive = False, urs_consecutiveRounds = 0, urs_totalWins = 1,
                urs_roundTimestamp = eventDate\<rparr>
            | Some r \<Rightarrow> r\<lparr>urs_totalWins := urs_totalWins r + 1\<rparr>)
      in userRoundStats_save stats s)"

text \<open>
  The \<open>WinnerPicked\<close> log does not carry the winner; the handler reads it back from the
  chain with \<open>getRoundResult\<close>, which is a parameter here: it throws (\<open>Inl\<close>), finds no read
  contract (\<open>Inr None\<close>) or answers. The notification rows written after the win event are
  outside this model.
\<close>

record RoundResult =
  winnerAddress :: string
  winnerTicket :: int
  roundPlayers :: "string list"
  prizeAmount :: int

definition processWinnerPickedEvent ::
  "(string \<Rightarrow> int \<Rightarrow> error + RoundResult option) \<Rightarrow>
   string \<Rightarrow> int \<Rightarrow> int \<Rightarrow> log_ctx \<Rightarrow> store \<Rightarrow> error option \<times> store" where
  "processWinnerPickedEvent getRoundResult token roundId timestamp c s =
     (case getNumber roundId of
        Inl err \<Rightarrow> catchDuplicate err s
      | Inr roundIdNumber \<Rightarrow>
     (case getNumber timestamp of
        Inl err \<Rightarrow> catchDuplicate err s
      | Inr seconds \<Rightarrow>
        (let eventDate = seconds * 1000
         in case getRoundResult token roundIdNumber of
              Inl err \<Rightarrow> catchDuplicate err s
            | Inr None \<Rightarrow> (None, s)
            | Inr (Some roundResult) \<Rightarrow>
               (let (winner, s1) = getOrCreateUser (winnerAddress roundResult) s
                in case winnerRoundStats winner token roundIdNumber (contractAddress c) eventDate s1 of
                     Inl err \<Rightarrow> catchDuplicate err s1
                   | Inr s2 \<Rightarrow>
                      (let s3 = fold (\<lambda>playerAddress t. snd (getOrCreateUser playerAddress t))
                                  (roundPlayers roundResult) s2;
                           winEvent = \<lparr>we_winner = winner, we_token = token,
                             we_roundId = roundIdNumber, we_chainId = chainId c,
                             we_contractAddress = contractAddress c,
                             we_amount = prizeAmount roundResult,
                             we_players = roundPlayers roundResult,
                             we_ticketId = winnerTicket roundResult, we_blockTimestamp = eventDate,
                             we_transactionHash = transactionHash c, we_logIndex = logIndex c\<rparr>
                       in case winEventRepository_save winEvent s3 of
                            Inl err \<Rightarrow> catchDuplicate err s3
                          | Inr s4 \<Rightarrow>
                              (None, updateLastSyncedBlock (blockchainName c) (contractAddress c)
                                       (blockNumber c) s4))))))"

text \<open>
  A decoded log as ethers hands it over: the event name with its typed arguments.
  \<open>processEvent\<close> converts the ticket count before it calls the handler, outside the
  handler's \<open>try\<close>.
\<close>

datatype event_args =
    WinnerPicked string int int
  | TicketPurchased string int string int int int
  | FirstTicketBonusAwarded string int string int int int
  | UnknownEvent string

record EventLog =
  ev_args :: event_args
  ev_transactionHash :: string
  ev_blockNumber :: int
  ev_index :: int

definition processEvent ::
  "(string \<Rightarrow> int \<Rightarrow> error + RoundResult option) \<Rightarrow> int \<Rightarrow>
   EventLog \<Rightarrow> string \<Rightarrow> string \<Rightarrow> store \<Rightarrow> error option \<times> store" where
  "processEvent getRoundResult configChainId event name contractAddr s =
     (let c = \<lparr>chainId = configChainId, transactionHash = ev_transactionHash event,
                blockNumber = ev_blockNumber event, blockchainName = name,
                contractAddress = contractAddr, logIndex = ev_index event\<rparr>
      in case ev_args event of
           WinnerPicked token roundId timestamp \<Rightarrow>
             processWinnerPickedEvent getRoundResult token roundId timestamp c s
         | TicketPurchased token roundId buyer count totalAmount timestamp \<Rightarrow>
            (case getNumber count of
               Inl err \<Rightarrow> (Some err, s)
             | Inr countNumber \<Rightarrow>
                 processTicketPurchasedEvent token roundId buyer countNumber totalAmount timestamp c s)
         | FirstTicketBonusAwarded token roundId buyer timestamp roundStartTime roundEndTime \<Rightarrow>
             processFirstTicketBonusEvent token roundId buyer timestamp roundStartTime roundEndTime c s
         | UnknownEvent _ \<Rightarrow> (None, s))"

section \<open>Applying decoded instructions (Solana)\<close>

text \<open>
  The structured events that \<open>parseEventsFromLogs\<close> decodes from the log messages of one
  transaction. Each constructor lists the fields the handlers destructure, in the order
  of the source: TicketPurchased \<open>token round_id buyer count total_amount prize_amount
  commission_amount timestamp\<close>; FirstTicketBonusAwarded \<open>token round_id buyer timestamp
  round_start_time round_end_time\<close>; WinnerPicked \<open>token round round_id
  winner_purchase_index winner_ticket_index prize_amount timestamp\<close>; PrizeClaimed
  \<open>round_id winner\<close>.
\<close>

datatype sol_event =
    EvTicketPurchased string int string int int int int int
  | EvFirstTicketBonusAwarded string int string int int int
  | EvWinnerPicked string string int int int int int
  | EvAllRequestsCompleted
  | EvPrizeClaimed int string
  | EvOther string

fun isTicketPurchased :: "sol_event \<Rightarrow> bool" where
  "isTicketPurchased (EvTicketPurchased _ _ _ _ _ _ _ _) = True"
| "isTicketPurchased _ = False"

fun isFirstTicketBonusAwarded :: "sol_event \<Rightarrow> bool" where
  "isFirstTicketBonusAwarded (EvFirstTicketBonusAwarded _ _ _ _ _ _) = True"
| "isFirstTicketBonusAwarded _ = False"

fun isWinnerPicked :: "sol_event \<Rightarrow> bool" where
  "isWinnerPicked (EvWinnerPicked _ _ _ _ _ _ _) = True"
| "isWinnerPicked _ = False"

fun isAllRequestsCompleted :: "sol_event \<Rightarrow> bool" where
  "isAllRequestsCompleted EvAllRequestsCompleted = True"
| "isAllRequestsCompleted _ = False"

fun isPrizeClaimed :: "sol_event \<Rightarrow> bool" where
  "isPrizeClaimed (EvPrizeClaimed _ _) = True"
| "isPrizeClaimed _ = False"

definition sameRound :: "string \<Rightarrow> int \<Rightarrow> string \<Rightarrow> int \<Rightarrow> Round \<Rightarrow> bool" where
  "sameRound token roundId contractAddr configChainId r \<longleftrightarrow>
     rd_token r = token \<and> rd_roundId r = roundId \<and> rd_contractAddress r = contractAddr
       \<and> rd_chainId r = configChainId"

text \<open>
  The second part of \<open>processSolanaTicketPurchasedEvent\<close>: the round and the bonus row of
  a FirstTicketBonusAwarded event in the same transaction. The times of the event are big
  numbers converted with \<open>toNumber\<close>. Whatever throws here leaves the rows written before
  it in place.
\<close>

definition solanaBonusRows ::
  "string \<Rightarrow> int \<Rightarrow> string \<Rightarrow> int \<Rightarrow> sol_event list \<Rightarrow> store \<Rightarrow> error option \<times> store" where
  "solanaBonusRows contractAddr configChainId signature instructionIndex events s =
     (case find isFirstTicketBonusAwarded events of
        Some (EvFirstTicketBonusAwarded token round_id buyer timestamp round_start_time round_end_time) \<Rightarrow>
          (let (user, s1) = getOrCreateUser buyer s
           in case toNumber round_start_time of
                Inl err \<Rightarrow> (Some err, s1)
              | Inr startSeconds \<Rightarrow>
             (case toNumber round_end_time of
                Inl err \<Rightarrow> (Some err, s1)
              | Inr endSeconds \<Rightarrow>
                 (let round = \<lparr>rd_contractAddress = contractAddr, rd_token = token,
                        rd_roundId = round_id, rd_chainId = configChainId,
                        rd_startTime = startSeconds * 1000, rd_endTime = endSeconds * 1000,
                        rd_prizeAmount = Some 0, rd_commissionAmount = Some 0,
                        rd_prizeClaimed = False\<rparr>
                  in case roundRepository_insert round s1 of
                       Inl err \<Rightarrow> (Some err, s1)
                     | Inr s2 \<Rightarrow>
                        (case toNumber timestamp of
                           Inl err \<Rightarrow> (Some err, s2)
                         | Inr seconds \<Rightarrow>
                            (let firstTicketBonus = \<lparr>ftb_buyer = user, ftb_token = token,
                                   ftb_roundId = round_id, ftb_chainId = configChainId,
                                   ftb_contractAddress = contractAddr,
                                   ftb_blockTimestamp = seconds * 1000,
                                   ftb_transactionHash = signature,
                                   ftb_logIndex = instructionIndex\<rparr>
                             in case firstTicketBonusRepository_save firstTicketBonus s2 of
                                  Inl err \<Rightarrow> (Some err, s2)
                                | Inr s3 \<Rightarrow> (None, s3))))))
      | _ \<Rightarrow> (None, s))"

text \<open>The third part: the amounts of the purchase are added to the round, when it is found.\<close>

definition solanaRoundAmounts ::
  "string \<Rightarrow> int \<Rightarrow> string \<Rightarrow> int \<Rightarrow> int \<Rightarrow> int \<Rightarrow> store \<Rightarrow> store" where
  "solanaRoundAmounts tokenAddress round_id contractAddr configChainId prize_amount commission_amount s =
     (case find (sameRound tokenAddress round_id contractAddr configChainId) (rounds s) of
        Some round \<Rightarrow>
          (let currentPrizeAmount = (case rd_prizeAmount round of None \<Rightarrow> 0 | Some a \<Rightarrow> a);
               currentCommissionAmount = (case rd_commissionAmount round of None \<Rightarrow> 0 | Some a \<Rightarrow> a);
               round' = round\<lparr>rd_prizeAmount := Some (currentPrizeAmount + prize_amount),
                              rd_commissionAmount := Some (currentCommissionAmount + commission_amount)\<rparr>
           in s\<lparr>rounds := replaceFirst (sameRound tokenAddress round_id contractAddr configChainId)
                               round' (rounds s)\<rparr>)
      | None \<Rightarrow> s)"

text \<open>
  \<open>programId\<close> is \<open>this.solanaProgramId[blockchainName].toBase58()\<close>, the contract key of
  every row a Solana handler writes.
\<close>

definition processSolanaTicketPurchasedEvent ::
  "string \<Rightarrow> int \<Rightarrow> string \<Rightarrow> int \<Rightarrow> string \<Rightarrow> int \<Rightarrow> sol_event list \<Rightarrow> store
     \<Rightarrow> error option \<times> store" where
  "processSolanaTicketPurchasedEvent programId configChainId signature block name instructionIndex events s =
     (case find isTicketPurchased events of
        Some (EvTicketPurchased tokenAddress round_id buyer count total_amount prize_amount
                commission_amount timestamp) \<Rightarrow>
          (let (user, s1) = getOrCreateUser buyer s;
               contractAddr = programId
           in case toNumber timestamp of
                Inl err \<Rightarrow> catchDuplicate err s1
              | Inr seconds \<Rightarrow>
                 (let eventTimestamp = seconds * 1000;
                      ticketPurchase = \<lparr>tp_buyer = user, tp_token = tokenAddress,
                        tp_roundId = round_id, tp_chainId = configChainId,
                        tp_contractAddress = contractAddr, tp_count = count,
                        tp_totalAmount = total_amount, tp_blockTimestamp = eventTimestamp,
                        tp_transactionHash = signature, tp_logIndex = instructionIndex\<rparr>
                  in case ticketPurchaseRepository_save ticketPurchase s1 of
                       Inl err \<Rightarrow> catchDuplicate err s1
                     | Inr s2 \<Rightarrow>
                        (case purchaseRoundStats user tokenAddress round_id contractAddr count
                                eventTimestamp s2 of
                           Inl err \<Rightarrow> catchDuplicate err s2
                         | Inr s3 \<Rightarrow>
                            (case solanaBonusRows contractAddr configChainId signature
                                    instructionIndex events s3 of
                               (Some err, s4) \<Rightarrow> catchDuplicate err s4
                             | (None, s4) \<Rightarrow>
                                (let s5 = solanaRoundAmounts tokenAddress round_id contractAddr
                                            configChainId prize_amount commission_amount s4
                                 in (None, updateLastSyncedBlock name contractAddr block s5))))))
      | _ \<Rightarrow> (None, s))"

text \<open>
  What the Solana handlers ask of the outside: the player stored in the purchase account of
  the winning ticket (\<open>getWinnerAddressFromPurchase\<close>, by round account and purchase index),
  and the cron job update of the automation service, which may throw.
\<close>

record solana_env =
  getWinnerAddressFromPurchase :: "string \<Rightarrow> int \<Rightarrow> string option"
  updateCronJobAfterRequestsCompleted :: "error option"

definition getRoundPlayers :: "string \<Rightarrow> string \<Rightarrow> int \<Rightarrow> store \<Rightarrow> string list" where
  "getRoundPlayers contractAddr tokenAddress roundId s =
     map urs_user (filter (\<lambda>r. urs_roundId r = roundId \<and> urs_contractAddress r = contractAddr
                                 \<and> urs_token r = tokenAddress) (userRoundStats s))"

text \<open>
  The win notifications and the \<open>setWinnerAddress\<close> transaction sent back to the chain
  (whose failure is caught and logged) leave the store as it is.
\<close>

definition processSolanaWinnerPickedEvent ::
  "solana_env \<Rightarrow> string \<Rightarrow> int \<Rightarrow> string \<Rightarrow> int \<Rightarrow> string \<Rightarrow> int \<Rightarrow> sol_event list \<Rightarrow> store
     \<Rightarrow> error option \<times> store" where
  "processSolanaWinnerPickedEvent env programId configChainId signature block name instructionIndex events s =
     (case find isWinnerPicked events of
        Some (EvWinnerPicked tokenAddress round round_id winner_purchase_index winner_ticket_index
                prize_amount timestamp) \<Rightarrow>
          (let contractAddr = programId
           in case toNumber timestamp of
                Inl err \<Rightarrow> catchDuplicate err s
              | Inr seconds \<Rightarrow>
                 (let eventTimestamp = seconds * 1000
                  in case getWinnerAddressFromPurchase env round winner_purchase_index of
                       None \<Rightarrow> (None, s)
                     | Some winnerAddr \<Rightarrow>
                        (let (user, s1) = getOrCreateUser winnerAddr s
                         in case winnerRoundStats user tokenAddress round_id contractAddr
                                   eventTimestamp s1 of
                              Inl err \<Rightarrow> catchDuplicate err s1
                            | Inr s2 \<Rightarrow>
                               (let playerEntities = getRoundPlayers programId tokenAddress round_id s2;
                                    winEvent = \<lparr>we_winner = user, we_token = tokenAddress,
                                      we_roundId = round_id, we_chainId = configChainId,
                                      we_contractAddress = contractAddr, we_amount = prize_amount,
                                      we_players = playerEntities,
                                      we_ticketId = winner_ticket_index,
                                      we_blockTimestamp = eventTimestamp,
                                      we_transactionHash = signature,
                                      we_logIndex = instructionIndex\<rparr>
                                in case winEventRepository_save winEvent s2 of
                                     Inl err \<Rightarrow> catchDuplicate err s2
                                   | Inr s3 \<Rightarrow>
                                       (None, updateLastSyncedBlock name contractAddr block s3)))))
      | _ \<Rightarrow> (None, s))"

definition processAllRequestsCompletedEvent ::
  "solana_env \<Rightarrow> string \<Rightarrow> string \<Rightarrow> int \<Rightarrow> string \<Rightarrow> sol_event list \<Rightarrow> store
     \<Rightarrow> error option \<times> store" where
  "processAllRequestsCompletedEvent env programId signature block name events s =
     (case find isAllRequestsCompleted events of
        None \<Rightarrow> (None, s)
      | Some _ \<Rightarrow>
         (case updateCronJobAfterRequestsCompleted env of
            Some err \<Rightarrow> catchDuplicate err s
          | None \<Rightarrow> (None, updateLastSyncedBlock name programId block s)))"

text \<open>
  The round of a claimed prize: joined with the win events of the same token, round,
  contract and chain whose winner is the claiming user, and not yet claimed.
\<close>

definition claimableRound :: "int \<Rightarrow> string \<Rightarrow> string \<Rightarrow> store \<Rightarrow> Round \<Rightarrow> bool" where
  "claimableRound round_id contractAddr userId s r \<longleftrightarrow>
     rd_roundId r = round_id \<and> rd_contractAddress r = contractAddr \<and> \<not> rd_prizeClaimed r
     \<and> list_ex (\<lambda>we. we_token we = rd_token r \<and> we_roundId we = rd_roundId r
                       \<and> we_contractAddress we = rd_contractAddress r
                       \<and> we_chainId we = rd_chainId r \<and> we_winner we = userId) (winEvents s)"

definition processSolanaPrizeClaimedEvent ::
  "string \<Rightarrow> string \<Rightarrow> int \<Rightarrow> string \<Rightarrow> sol_event list \<Rightarrow> store \<Rightarrow> error option \<times> store" where
  "processSolanaPrizeClaimedEvent programId signature block name events s =
     (case find isPrizeClaimed events of
        Some (EvPrizeClaimed round_id winnerAddr) \<Rightarrow>
          (if winnerAddr \<notin> set (users s) then (None, s)
           else case find (claimableRound round_id programId winnerAddr s) (rounds s) of
                  None \<Rightarrow> (None, s)
                | Some round \<Rightarrow>
                   (let s1 = s\<lparr>rounds := replaceFirst (claimableRound round_id programId winnerAddr s)
                                            (round\<lparr>rd_prizeClaimed := True\<rparr>) (rounds s)\<rparr>
                    in (None, updateLastSyncedBlock name programId block s1)))
      | _ \<Rightarrow> (None, s))"

text \<open>
  An instruction of a fetched transaction: whether its program is the configured one, and
  the name the instruction coder decodes (\<open>None\<close> when it decodes nothing).
\<close>

record sol_instruction =
  ix_programMatches :: bool
  ix_decodedName :: "string option"

record SolanaTx =
  tx_slot :: int
  tx_hasMeta :: bool
  tx_metaErr :: bool
  tx_instructions :: "sol_instruction list"
  tx_innerInstructions :: "(int \<times> sol_instruction list) list"
  tx_events :: "sol_event list"

definition decodeSolanaInstruction ::
  "solana_env \<Rightarrow> bool \<Rightarrow> string \<Rightarrow> int \<Rightarrow> string \<Rightarrow> sol_instruction \<Rightarrow> SolanaTx \<Rightarrow> string \<Rightarrow> int
     \<Rightarrow> int \<Rightarrow> bool \<Rightarrow> store \<Rightarrow> error option \<times> store" where
  "decodeSolanaInstruction env hasIdl programId configChainId name instruction tx signature block
       instructionIndex isHistorical s =
     (if hasIdl then
        (case ix_decodedName instruction of
           None \<Rightarrow> (None, s)
         | Some decodedName \<Rightarrow>
            (let events = tx_events tx in
             if decodedName = ''buy_tickets_sol'' then
               processSolanaTicketPurchasedEvent programId configChainId signature block name
                 instructionIndex events s
             else if decodedName = ''consume_randomness'' then
               processSolanaWinnerPickedEvent env programId configChainId signature block name
                 instructionIndex events s
             else if decodedName = ''request_randomness'' then
               (if \<not> isHistorical
                then processAllRequestsCompletedEvent env programId signature block name events s
                else (None, s))
             else if decodedName = ''claim_prize_sol'' then
               processSolanaPrizeClaimedEvent programId signature block name events s
             else (None, s)))
      else (None, s))"

text \<open>
  \<open>processSolanaTransactionData\<close> walks the top-level instructions with their index, then
  every set of inner instructions with the composite index \<open>parentIndex * 1000 + i\<close>. An
  error of a handler is caught and logged around each instruction.
\<close>

fun instructionLoop ::
  "(sol_instruction \<Rightarrow> int \<Rightarrow> store \<Rightarrow> error option \<times> store) \<Rightarrow> int \<Rightarrow> int
     \<Rightarrow> sol_instruction list \<Rightarrow> store \<Rightarrow> store" where
  "instructionLoop decode base i [] s = s"
| "instructionLoop decode base i (instruction # rest) s =
     instructionLoop decode base (i + 1) rest
       (if ix_programMatches instruction then snd (decode instruction (base + i) s) else s)"

definition processSolanaTransactionData ::
  "solana_env \<Rightarrow> bool \<Rightarrow> int \<Rightarrow> string \<Rightarrow> SolanaTx \<Rightarrow> string \<Rightarrow> int \<Rightarrow> string \<Rightarrow> bool \<Rightarrow> store \<Rightarrow> store" where
  "processSolanaTransactionData env hasIdl configChainId name tx signature block programId isHistorical s =
     (let decode = (\<lambda>instruction index.
            decodeSolanaInstruction env hasIdl programId configChainId name instruction tx
              signature block index isHistorical);
          s1 = instructionLoop decode 0 0 (tx_instructions tx) s
      in fold (\<lambda>(parentIndex, instructions). instructionLoop decode (parentIndex * 1000) 0 instructions)
           (tx_innerInstructions tx) s1)"

section \<open>Backfill\<close>

subsection \<open>Log-based source\<close>

text \<open>
  What an EVM chain answers. \<open>queryFilter from to\<close> is the outcome of
  \<open>retryWithBackoff(() => contract.queryFilter('*', from, to))\<close>: the logs of the range,
  or the error left after the retries. A log that is not an \<open>EventLog\<close> is skipped.
\<close>

datatype raw_log = PlainLog | Decoded EventLog

record evm_env =
  getBlockNumber :: "error + int"
  queryFilter :: "int \<Rightarrow> int \<Rightarrow> error + raw_log list"
  getRoundResult :: "string \<Rightarrow> int \<Rightarrow> error + RoundResult option"

definition maxBlockRange :: int where
  "maxBlockRange = 10000"

text \<open>
  The loop over the events of one range. Both branches of its \<open>catch\<close> only log, so the
  error of a handler is dropped and the loop goes on with the store the handler left.
\<close>

fun eventLoop :: "evm_env \<Rightarrow> int \<Rightarrow> string \<Rightarrow> string \<Rightarrow> raw_log list \<Rightarrow> store \<Rightarrow> store" where
  "eventLoop env configChainId name contractAddr [] s = s"
| "eventLoop env configChainId name contractAddr (PlainLog # rest) s =
     eventLoop env configChainId name contractAddr rest s"
| "eventLoop env configChainId name contractAddr (Decoded event # rest) s =
     eventLoop env configChainId name contractAddr rest
       (snd (processEvent (getRoundResult env) configChainId event name contractAddr s))"

text \<open>
  A backfill returns its success flag, the store, and the ranges it completed in the order
  of completion, each with the cursor read back right after the range's
  \<open>updateLastSyncedBlock\<close> (the ``Completed chunk'' log line).
\<close>

type_synonym fetched_range = "int \<times> int \<times> int option"

function chunkLoop ::
  "evm_env \<Rightarrow> int \<Rightarrow> string \<Rightarrow> string \<Rightarrow> int \<Rightarrow> int \<Rightarrow> store \<Rightarrow> bool \<times> store \<times> fetched_range list" where
  "chunkLoop env configChainId name contractAddr currentFrom toBlock s =
     (if currentFrom \<le> toBlock then
        (let currentTo = min (currentFrom + maxBlockRange - 1) toBlock
         in case queryFilter env currentFrom currentTo of
              Inl err \<Rightarrow> (False, s, [])
            | Inr allEvents \<Rightarrow>
               (let s1 = eventLoop env configChainId name contractAddr allEvents s;
                    s2 = updateLastSyncedBlock name contractAddr currentTo s1;
                    (ok, s3, done) = chunkLoop env configChainId name contractAddr (currentTo + 1) toBlock s2
                in (ok, s3, (currentFrom, currentTo, getLastSyncedBlock name contractAddr s2) # done)))
      else (True, s, []))"
  by pat_completeness auto
termination
  by (relation "measure (\<lambda>(env, cid, name, ca, currentFrom, toBlock, s). nat (toBlock + 1 - currentFrom))")
     (auto simp: maxBlockRange_def)

declare chunkLoop.simps [simp del]

definition fetchHistoricalEvents ::
  "evm_env \<Rightarrow> int \<Rightarrow> string \<Rightarrow> string \<Rightarrow> int \<Rightarrow> int \<Rightarrow> store \<Rightarrow> bool \<times> store \<times> fetched_range list" where
  "fetchHistoricalEvents env configChainId name contractAddr fromBlock toBlock s =
     (let totalBlocks = toBlock - fromBlock + 1
      in if totalBlocks \<le> maxBlockRange then
           (case queryFilter env fromBlock toBlock of
              Inl err \<Rightarrow> (False, s, [])
            | Inr allEvents \<Rightarrow>
               (let s1 = eventLoop env configChainId name contractAddr allEvents s;
                    s2 = updateLastSyncedBlock name contractAddr toBlock s1
                in (True, s2, [(fromBlock, toBlock, getLastSyncedBlock name contractAddr s2)])))
         else chunkLoop env configChainId name contractAddr fromBlock toBlock s)"

subsection \<open>Instruction-based source\<close>

text \<open>
  What the Solana RPC answers. \<open>signaturePages\<close> are the successive answers of
  \<open>getSignaturesForAddress(programId, {before, limit: 1000})\<close> along one pagination, each
  page newest first; after the last listed answer the source returns the empty page.
  \<open>getTransaction\<close> throws, returns null, or returns the transaction.
\<close>

record ConfirmedSignatureInfo =
  sig_signature :: string
  sig_slot :: int

record solana_source =
  getSlot :: "error + int"
  signaturePages :: "(error + ConfirmedSignatureInfo list) list"
  getTransaction :: "string \<Rightarrow> error + SolanaTx option"

fun collectSignatures ::
  "int \<Rightarrow> int \<Rightarrow> (error + ConfirmedSignatureInfo list) list \<Rightarrow> string list \<Rightarrow> error + string list" where
  "collectSignatures fromBlock toBlock [] allSignatures = Inr allSignatures"
| "collectSignatures fromBlock toBlock (Inl err # pages) allSignatures = Inl err"
| "collectSignatures fromBlock toBlock (Inr signatures # pages) allSignatures =
     (case signatures of
        [] \<Rightarrow> Inr allSignatures
      | first # _ \<Rightarrow>
         if sig_slot first < fromBlock then Inr allSignatures
         else
           (let filteredSignatures =
                  filter (\<lambda>sig. sig_slot sig \<ge> fromBlock \<and> sig_slot sig \<le> toBlock) signatures;
                allSignatures' = allSignatures @ map sig_signature filteredSignatures
            in if sig_slot (last signatures) < fromBlock then Inr allSignatures'
               else if length signatures < 1000 then Inr allSignatures'
               else collectSignatures fromBlock toBlock pages allSignatures'))"

text \<open>\<open>allSignatures.reverse()\<close>: the order in which the transactions are processed.\<close>

definition signaturesToProcess :: "solana_source \<Rightarrow> int \<Rightarrow> int \<Rightarrow> error + string list" where
  "signaturesToProcess src fromBlock toBlock =
     (case collectSignatures fromBlock toBlock (signaturePages src) [] of
        Inl err \<Rightarrow> Inl err
      | Inr allSignatures \<Rightarrow> Inr (rev allSignatures))"

text \<open>The body of the loop over the signatures; every error in it is caught and counted.\<close>

definition processSignature ::
  "solana_env \<Rightarrow> solana_source \<Rightarrow> bool \<Rightarrow> int \<Rightarrow> string \<Rightarrow> string \<Rightarrow> bool \<Rightarrow> string \<Rightarrow> store \<Rightarrow> store" where
  "processSignature env src hasIdl configChainId name programId isHistorical signature s =
     (case getTransaction src signature of
        Inl err \<Rightarrow> s
      | Inr None \<Rightarrow> s
      | Inr (Some tx) \<Rightarrow>
         if \<not> tx_hasMeta tx then s
         else if tx_metaErr tx then s
         else processSolanaTransactionData env hasIdl configChainId name tx signature (tx_slot tx)
                programId isHistorical s)"

definition fetchSolanaTransactions ::
  "solana_env \<Rightarrow> solana_source \<Rightarrow> bool \<Rightarrow> int \<Rightarrow> string \<Rightarrow> string \<Rightarrow> int \<Rightarrow> int \<Rightarrow> bool \<Rightarrow> store
     \<Rightarrow> bool \<times> store" where
  "fetchSolanaTransactions env src hasIdl configChainId name programId fromBlock toBlock isHistorical s =
     (case signaturesToProcess src fromBlock toBlock of
        Inl err \<Rightarrow> (False, s)
      | Inr allSignatures \<Rightarrow>
         (let s1 = fold (processSignature env src hasIdl configChainId name programId isHistorical)
                     allSignatures s
          in (True, updateLastSyncedBlock name programId toBlock s1)))"

section \<open>Connection supervisor\<close>

text \<open>
  The service keeps its per-chain data in maps keyed by the chain name; \<open>chain_runtime\<close>
  is the slice of those maps at one name. \<open>contracts\<close> holds the \<open>target\<close> addresses of
  the contract instances, \<open>healthCheckTimers\<close> whether an interval timer is installed. A
  missing entry of \<open>reconnectAttempts\<close> or \<open>connectionStates\<close> is read as 0 or false
  everywhere in the source.
\<close>

datatype provider = WebSocketProvider | JsonRpcProvider | Connection

record BlockchainConfig =
  cfg_rpcUrl :: string
  cfg_chainId :: int
  cfg_contractAddresses :: "string list"
  cfg_programId :: "string option"

record chain_runtime =
  configs :: "BlockchainConfig option"
  providers :: "provider option"
  contracts :: "string list option"
  connectionStates :: bool
  reconnectAttempts :: nat
  healthCheckTimers :: bool
  solanaProgramId :: "string option"
  solanaIdl :: bool

definition maxReconnectAttempts :: nat where
  "maxReconnectAttempts = 5"

definition reconnectDelay :: nat where
  "reconnectDelay = 5000"

subsection \<open>Health probe\<close>

text \<open>
  A probe returns its verdict, the store, and the backfills it started: the contract (or
  program) with the range handed to \<open>fetchHistoricalEvents\<close> or
  \<open>fetchSolanaTransactions\<close>.
\<close>

type_synonym backfill_call = "string \<times> int \<times> int"

definition checkSolanaConnectionHealth ::
  "solana_env \<Rightarrow> solana_source \<Rightarrow> int \<Rightarrow> string \<Rightarrow> chain_runtime \<Rightarrow> store
     \<Rightarrow> bool \<times> store \<times> backfill_call list" where
  "checkSolanaConnectionHealth senv src syncThresholdBlocks name rt s =
     (case getSlot src of
        Inl err \<Rightarrow> (False, s, [])
      | Inr currentBlock \<Rightarrow>
         (case configs rt of
            None \<Rightarrow> (True, s, [])
          | Some config \<Rightarrow>
             (case (cfg_programId config, solanaProgramId rt) of
                (Some _, Some programId) \<Rightarrow>
                  (case getLastSyncedBlock name programId s of
                     None \<Rightarrow> (True, s, [])
                   | Some lastSyncedBlock \<Rightarrow>
                      (let blocksBehind = currentBlock - lastSyncedBlock;
                           solanaThreshold = syncThresholdBlocks * 10
                       in if blocksBehind > solanaThreshold then
                            (let (ok, s1) = fetchSolanaTransactions senv src (solanaIdl rt)
                                   (cfg_chainId config) name programId (lastSyncedBlock + 1)
                                   currentBlock False s
                             in (True, s1, [(programId, lastSyncedBlock + 1, currentBlock)]))
                          else (True, s, [])))
              | _ \<Rightarrow> (True, s, []))))"

definition checkConnectionHealth ::
  "evm_env \<Rightarrow> solana_env \<Rightarrow> solana_source \<Rightarrow> int \<Rightarrow> string \<Rightarrow> chain_runtime \<Rightarrow> store
     \<Rightarrow> bool \<times> store \<times> backfill_call list" where
  "checkConnectionHealth env senv src syncThresholdBlocks name rt s =
     (case providers rt of
        None \<Rightarrow> (False, s, [])
      | Some WebSocketProvider \<Rightarrow>
         (case getBlockNumber env of
            Inl err \<Rightarrow> (False, s, [])
          | Inr currentHeight \<Rightarrow>
             (case configs rt of
                None \<Rightarrow> (True, s, [])
              | Some config \<Rightarrow>
                 (case cfg_contractAddresses config of
                    [] \<Rightarrow> (True, s, [])
                  | contractAddr # _ \<Rightarrow>
                     (case getLastSyncedBlock name contractAddr s of
                        None \<Rightarrow> (True, s, [])
                      | Some lastSyncedBlock \<Rightarrow>
                         (let blocksBehind = currentHeight - lastSyncedBlock
                          in if blocksBehind > syncThresholdBlocks then
                               (case contracts rt of
                                  None \<Rightarrow> (False, s, [])
                                | Some instances \<Rightarrow>
                                   (case find (\<lambda>target. target = contractAddr) instances of
                                      None \<Rightarrow> (False, s, [])
                                    | Some contract \<Rightarrow>
                                       (let (result, s1, done) =
                                              fetchHistoricalEvents env (cfg_chainId config) name contract
                                                (lastSyncedBlock + 1) currentHeight s
                                        in (result, s1, [(contract, lastSyncedBlock + 1, currentHeight)]))))
                             else (True, s, []))))))
      | Some Connection \<Rightarrow> checkSolanaConnectionHealth senv src syncThresholdBlocks name rt s
      | Some JsonRpcProvider \<Rightarrow>
         (case getBlockNumber env of
            Inl err \<Rightarrow> (False, s, [])
          | Inr currentHeight \<Rightarrow> (True, s, [])))"

subsection \<open>Reconnection\<close>

text \<open>
  What happens around one reconnection attempt and is not decided by the service: whether
  the IDL file can be read, whether the provider exposes its \<open>_websocket\<close> field, whether
  the socket's \<open>open\<close> handler runs while the listeners are being restarted, and whether
  \<open>listenToEthereumEvents\<close> or \<open>listenToSolanaEvents\<close> throws.
\<close>

record attempt_env =
  idlReadable :: bool
  websocketExposed :: bool
  websocketOpens :: bool
  listenThrows :: bool

definition toLowerCase :: "string \<Rightarrow> string" where
  "toLowerCase str =
     map (\<lambda>c. let n = (of_char c :: nat) in if 65 \<le> n \<and> n \<le> 90 then char_of (n + 32) else c) str"

definition startsWith :: "string \<Rightarrow> string \<Rightarrow> bool" where
  "startsWith str prefix \<longleftrightarrow> take (length prefix) str = prefix"

definition addBlockchain ::
  "attempt_env \<Rightarrow> string \<Rightarrow> BlockchainConfig \<Rightarrow> chain_runtime \<Rightarrow> error option \<times> chain_runtime" where
  "addBlockchain env name config rt =
     (let rt1 = rt\<lparr>configs := Some config\<rparr>
      in if toLowerCase name = ''solana'' then
           (let rt2 = rt1\<lparr>providers := Some Connection, solanaProgramId := cfg_programId config\<rparr>
            in if \<not> idlReadable env then (Some (Error ''IDL file not found''), rt2)
               else (None, rt2\<lparr>solanaIdl := True, connectionStates := True, reconnectAttempts := 0\<rparr>))
         else
           (let isSocket = startsWith (cfg_rpcUrl config) ''wss://'' \<or> startsWith (cfg_rpcUrl config) ''ws://'';
                rt2 = (if isSocket then
                         (if websocketExposed env then rt1 else rt1\<lparr>connectionStates := True\<rparr>)
                       else rt1\<lparr>connectionStates := True, reconnectAttempts := 0\<rparr>)
            in (None, rt2\<lparr>providers := Some (if isSocket then WebSocketProvider else JsonRpcProvider),
                          contracts := Some (cfg_contractAddresses config)\<rparr>)))"

definition cleanupBlockchain :: "chain_runtime \<Rightarrow> chain_runtime" where
  "cleanupBlockchain rt = rt\<lparr>healthCheckTimers := False\<rparr>"

definition startHealthCheck :: "chain_runtime \<Rightarrow> chain_runtime" where
  "startHealthCheck rt = rt\<lparr>healthCheckTimers := True\<rparr>"

text \<open>
  One call of \<open>reconnectBlockchain\<close> returns the runtime, the delay it awaited between
  cleanup and recreation (\<open>None\<close> when it returned before attempting), and the delay of the
  \<open>setTimeout\<close> with which it scheduled the next call (\<open>None\<close> when it scheduled nothing).
\<close>

definition reconnectBlockchain ::
  "attempt_env \<Rightarrow> string \<Rightarrow> chain_runtime \<Rightarrow> chain_runtime \<times> nat option \<times> nat option" where
  "reconnectBlockchain env name rt =
     (case configs rt of
        None \<Rightarrow> (rt, None, None)
      | Some config \<Rightarrow>
         (let currentAttempts = reconnectAttempts rt
          in if currentAttempts \<ge> maxReconnectAttempts then (rt, None, None)
             else
               (let rt1 = rt\<lparr>reconnectAttempts := currentAttempts + 1\<rparr>;
                    rt2 = cleanupBlockchain rt1;
                    delayMs = reconnectDelay * currentAttempts;
                    nextDelayMs = reconnectDelay * (currentAttempts + 1);
                    (thrown, rt3) = addBlockchain env name config rt2
                in case thrown of
                     Some err \<Rightarrow> (rt3\<lparr>connectionStates := False\<rparr>, Some delayMs, Some nextDelayMs)
                   | None \<Rightarrow>
                      (let rt4 = (if providers rt3 = Some WebSocketProvider \<and> websocketExposed env
                                       \<and> websocketOpens env
                                  then rt3\<lparr>connectionStates := True, reconnectAttempts := 0\<rparr>
                                  else rt3)
                       in if listenThrows env
                          then (rt4\<lparr>connectionStates := False\<rparr>, Some delayMs, Some nextDelayMs)
                          else ((startHealthCheck rt4)\<lparr>connectionStates := True, reconnectAttempts := 0\<rparr>,
                                Some delayMs, None)))))"

text \<open>
  The chain of calls that the \<open>setTimeout\<close> of a failed attempt keeps going, one
  \<open>attempt_env\<close> per call. The result lists, per call, the awaited and the scheduled
  delay.
\<close>

fun reconnectTimeline ::
  "attempt_env list \<Rightarrow> string \<Rightarrow> chain_runtime \<Rightarrow> chain_runtime \<times> (nat option \<times> nat option) list" where
  "reconnectTimeline [] name rt = (rt, [])"
| "reconnectTimeline (env # envs) name rt =
     (let (rt1, waited, scheduled) = reconnectBlockchain env name rt
      in case scheduled of
           None \<Rightarrow> (rt1, [(waited, scheduled)])
         | Some _ \<Rightarrow>
            (let (rt2, calls) = reconnectTimeline envs name rt1
             in (rt2, (waited, scheduled) # calls)))"

text \<open>The callback of the health timer, given the verdict of the probe.\<close>

definition healthCheckTimerFired ::
  "attempt_env \<Rightarrow> string \<Rightarrow> bool \<Rightarrow> chain_runtime \<Rightarrow> chain_runtime \<times> nat option \<times> nat option" where
  "healthCheckTimerFired env name isHealthy rt =
     (let rt1 = rt\<lparr>connectionStates := isHealthy\<rparr>
      in if \<not> isHealthy then reconnectBlockchain env name rt1
         else (rt1\<lparr>reconnectAttempts := 0\<rparr>, None, None))"

text \<open>\<open>reconnectBlockchain\<close> catches what it throws, so \<open>forceReconnect\<close> returns true.\<close>

definition forceReconnect ::
  "attempt_env \<Rightarrow> string \<Rightarrow> chain_runtime \<Rightarrow> bool \<times> chain_runtime \<times> nat option \<times> nat option" where
  "forceReconnect env name rt = (True, reconnectBlockchain env name rt)"

section \<open>Stores the service can produce\<close>

text \<open>
  Every write to the store goes through a handler of a log event, a handler of a decoded
  instruction, or the cursor update that ends a fetched range. A store is reachable when
  such writes lead to it from the empty database, whatever the chain delivers.
\<close>

inductive reachable :: "store \<Rightarrow> bool" where
  initial: "reachable emptyStore"
| log_event:
    "reachable s \<Longrightarrow>
     reachable (snd (processEvent roundResultOf configChainId event name contractAddr s))"
| instruction:
    "reachable s \<Longrightarrow>
     reachable (snd (decodeSolanaInstruction env hasIdl programId configChainId name instruction tx
                       signature block instructionIndex isHistorical s))"
| cursor: "reachable s \<Longrightarrow> reachable (updateLastSyncedBlock name contractAddr position s)"

text \<open>
  A row marked consecutive has a row of the same user, token and contract for the round
  before it.
\<close>

definition adjacentPrior :: "UserRoundStats \<Rightarrow> UserRoundStats \<Rightarrow> bool" where
  "adjacentPrior r p \<longleftrightarrow>
     urs_user p = urs_user r \<and> urs_token p = urs_token r
       \<and> urs_contractAddress p = urs_contractAddress r \<and> urs_roundId p = urs_roundId r - 1"

definition streakRows :: "UserRoundStats list \<Rightarrow> bool" where
  "streakRows rows \<longleftrightarrow>
     list_all (\<lambda>r. \<not> urs_isConsecutive r \<or> list_ex (adjacentPrior r) rows) rows"

text \<open>
  The streak of a purchase, in the words of the specification: with the most recent prior
  row \<open>priorRow\<close> of the same user, token and contract, the row of the current round is
  consecutive exactly when the prior row is the round before, and then counts one more than
  a consecutive prior row, else 1; without an adjacent prior row it is not consecutive and
  counts 0.
\<close>

definition streakAsSpecified :: "UserRoundStats option \<Rightarrow> int \<Rightarrow> UserRoundStats \<Rightarrow> bool" where
  "streakAsSpecified priorRow currentRoundId row \<longleftrightarrow>
     (case priorRow of
        None \<Rightarrow> \<not> urs_isConsecutive row \<and> urs_consecutiveRounds row = 0
      | Some p \<Rightarrow>
         if urs_roundId p = currentRoundId - 1
         then urs_isConsecutive row
              \<and> urs_consecutiveRounds row =
                  (if urs_isConsecutive p then urs_consecutiveRounds p + 1 else 1)
         else \<not> urs_isConsecutive row \<and> urs_consecutiveRounds row = 0)"



text \<open>
  The order of a sequence of signatures by slot: newest first as the history API of the
  source returns them, oldest first as the specification wants them applied.
\<close>

definition pageOf :: "error + ConfirmedSignatureInfo list \<Rightarrow> ConfirmedSignatureInfo list" where
  "pageOf answer = (case answer of Inl err \<Rightarrow> [] | Inr signatures \<Rightarrow> signatures)"

definition newestFirst :: "ConfirmedSignatureInfo list \<Rightarrow> bool" where
  "newestFirst signatures \<longleftrightarrow> sorted_wrt (\<lambda>a b. sig_slot b \<le> sig_slot a) signatures"

definition oldestFirst :: "ConfirmedSignatureInfo list \<Rightarrow> bool" where
  "oldestFirst signatures \<longleftrightarrow> sorted_wrt (\<lambda>a b. sig_slot a \<le> sig_slot b) signatures"

section \<open>Example inputs\<close>



definition examplePurchase :: "int \<Rightarrow> string \<Rightarrow> int \<Rightarrow> EventLog" where
  "examplePurchase roundId txHash block =
     \<lparr>ev_args = TicketPurchased ''T'' roundId ''alice'' 1 100 1700, ev_transactionHash = txHash,
       ev_blockNumber = block, ev_index = 0\<rparr>"



definition noRoundResult :: "string \<Rightarrow> int \<Rightarrow> error + RoundResult option" where
  "noRoundResult token roundId = Inr None"


definition storeAfterRounds56 :: store where
  "storeAfterRounds56 =
     snd (processEvent noRoundResult 1 (examplePurchase 6 ''0xB'' 60) ''ethereum'' ''0xC''
       (snd (processEvent noRoundResult 1 (examplePurchase 5 ''0xA'' 50) ''ethereum'' ''0xC''
          emptyStore)))"

definition round8Ctx :: log_ctx where
  "round8Ctx = \<lparr>chainId = 1, transactionHash = ''0xD'', blockNumber = 80,
     blockchainName = ''ethereum'', contractAddress = ''0xC'', logIndex = 0\<rparr>"




definition bonusCtx :: log_ctx where
  "bonusCtx = \<lparr>chainId = 1, transactionHash = ''0xA'', blockNumber = 50,
     blockchainName = ''ethereum'', contractAddress = ''0xC'', logIndex = 0\<rparr>"

definition bonusOnce :: store where
  "bonusOnce = snd (processFirstTicketBonusEvent ''T'' 5 ''alice'' 1700 1000 2000 bonusCtx emptyStore)"

definition bonusTwice :: store where
  "bonusTwice = snd (processFirstTicketBonusEvent ''T'' 5 ''alice'' 1700 1000 2000 bonusCtx bonusOnce)"

definition cursorNotLowered :: "int option \<Rightarrow> int option \<Rightarrow> bool" where
  "cursorNotLowered before after \<longleftrightarrow>
     (case before of
        None \<Rightarrow> True
      | Some old \<Rightarrow> (case after of None \<Rightarrow> False | Some new \<Rightarrow> old \<le> new))"

definition lateStore :: store where
  "lateStore = snd (processEvent noRoundResult 1 (examplePurchase 6 ''0xB'' 107) ''ethereum'' ''0xC''
                      emptyStore)"

definition writesAtMost :: "string \<Rightarrow> string \<Rightarrow> int \<Rightarrow> store \<Rightarrow> store \<Rightarrow> bool" where
  "writesAtMost name contractAddr position s s' \<longleftrightarrow>
     blockchainSync s' = blockchainSync s
     \<or> blockchainSync s' = blockchainSync (updateLastSyncedBlock name contractAddr position s)"

definition wsConfig :: BlockchainConfig where
  "wsConfig = \<lparr>cfg_rpcUrl = ''wss://node'', cfg_chainId = 1, cfg_contractAddresses = [''0xC''],
     cfg_programId = None\<rparr>"

definition wsRuntime :: chain_runtime where
  "wsRuntime = \<lparr>configs = Some wsConfig, providers = Some WebSocketProvider,
     contracts = Some [''0xC''], connectionStates = False, reconnectAttempts = 0,
     healthCheckTimers = True, solanaProgramId = None, solanaIdl = False\<rparr>"

definition socketDown :: attempt_env where
  "socketDown = \<lparr>idlReadable = True, websocketExposed = True, websocketOpens = False,
     listenThrows = True\<rparr>"

definition socketUp :: attempt_env where
  "socketUp = \<lparr>idlReadable = True, websocketExposed = True, websocketOpens = True,
     listenThrows = False\<rparr>"

definition exhaustedRuntime :: chain_runtime where
  "exhaustedRuntime = wsRuntime\<lparr>reconnectAttempts := 5, healthCheckTimers := False\<rparr>"

text \<open>
  A Solana program with two transactions: the first purchase of round 5 in slot 10, which
  carries the FirstTicketBonusAwarded event, and a later purchase of the same round in
  slot 20. The history API lists the later one first.
\<close>

definition buyTickets :: sol_instruction where
  "buyTickets = \<lparr>ix_programMatches = True, ix_decodedName = Some ''buy_tickets_sol''\<rparr>"

definition firstPurchaseTx :: SolanaTx where
  "firstPurchaseTx = \<lparr>tx_slot = 10, tx_hasMeta = True, tx_metaErr = False,
     tx_instructions = [buyTickets], tx_innerInstructions = [],
     tx_events = [EvTicketPurchased ''T'' 5 ''alice'' 1 100 90 10 1700,
                  EvFirstTicketBonusAwarded ''T'' 5 ''alice'' 1700 1000 2000]\<rparr>"

definition laterPurchaseTx :: SolanaTx where
  "laterPurchaseTx = \<lparr>tx_slot = 20, tx_hasMeta = True, tx_metaErr = False,
     tx_instructions = [buyTickets], tx_innerInstructions = [],
     tx_events = [EvTicketPurchased ''T'' 5 ''bob'' 2 200 180 20 1800]\<rparr>"

definition twoPurchases :: solana_source where
  "twoPurchases = \<lparr>getSlot = Inr 30,
     signaturePages = [Inr [\<lparr>sig_signature = ''sigB'', sig_slot = 20\<rparr>,
                            \<lparr>sig_signature = ''sigA'', sig_slot = 10\<rparr>]],
     getTransaction = (\<lambda>signature.
        if signature = ''sigA'' then Inr (Some firstPurchaseTx)
        else if signature = ''sigB'' then Inr (Some laterPurchaseTx)
        else Inr None)\<rparr>"

definition quietSolana :: solana_env where
  "quietSolana = \<lparr>getWinnerAddressFromPurchase = (\<lambda>round purchaseIndex. None),
     updateCronJobAfterRequestsCompleted = None\<rparr>"

text \<open>
  An EVM chain at height 107 or 104 with a purchase in block 103, and a store whose cursor
  of contract 0xC stands at 100; a second contract 0xD of the same chain stands at 10.
\<close>

definition chainAt :: "int \<Rightarrow> evm_env" where
  "chainAt height = \<lparr>getBlockNumber = Inr height,
     queryFilter = (\<lambda>a b. Inr (if a \<le> 103 \<and> 103 \<le> b
                                   then [Decoded (examplePurchase 5 ''0xA'' 103)] else [])),
     getRoundResult = (\<lambda>token roundId. Inr None)\<rparr>"

definition cursorAt100 :: store where
  "cursorAt100 = updateLastSyncedBlock ''ethereum'' ''0xC'' 100 emptyStore"

definition twoContracts :: chain_runtime where
  "twoContracts = wsRuntime\<lparr>
     configs := Some (wsConfig\<lparr>cfg_contractAddresses := [''0xC'', ''0xD'']\<rparr>),
     contracts := Some [''0xC'', ''0xD''], connectionStates := True\<rparr>"

definition secondLagging :: store where
  "secondLagging = updateLastSyncedBlock ''ethereum'' ''0xD'' 10 cursorAt100"

definition noSolanaSource :: solana_source where
  "noSolanaSource = \<lparr>getSlot = Inl (Error ''no connection''), signaturePages = [],
     getTransaction = (\<lambda>signature. Inr None)\<rparr>"

section \<open>Verification\<close>

subsection \<open>Lists of rows\<close>

lemma find_replaceFirst:
  "find P xs \<noteq> None \<Longrightarrow> P y \<Longrightarrow> find P (replaceFirst P y xs) = Some y"
  by (induction xs) auto

lemma find_snoc_new:
  "find P xs = None \<Longrightarrow> P y \<Longrightarrow> find P (xs @ [y]) = Some y"
  by (induction xs) (auto split: if_splits)

lemma find_snoc_old:
  "find P xs = Some x \<Longrightarrow> find P (xs @ ys) = Some x"
  by (induction xs) (auto split: if_splits)


subsection \<open>Errors a handler swallows\<close>

lemma catchDuplicate_simps [simp]:
  "snd (catchDuplicate err s) = s"
  "fst (catchDuplicate err s) = None \<longleftrightarrow> err = duplicateKey"
  "catchDuplicate err s = (None, s') \<longleftrightarrow> err = duplicateKey \<and> s' = s"
  "catchDuplicate duplicateKey s = (None, s)"
  by (auto simp: catchDuplicate_def)

lemma columnCheck_not_duplicate [simp]: "columnCheck xs ds \<noteq> Some duplicateKey"
  by (simp add: columnCheck_def numericValueOutOfRange_def invalidDatetime_def duplicateKey_def)

lemma getNumber_cases:
  "getNumber v = Inr v \<or> getNumber v = Inl (Error ''overflow'')"
  by (simp add: getNumber_def)

lemma getNumber_InrD: "getNumber v = Inr n \<Longrightarrow> n = v"
  by (simp add: getNumber_def split: if_splits)

lemma getNumber_InlD: "getNumber v = Inl err \<Longrightarrow> err \<noteq> duplicateKey"
  by (auto simp add: getNumber_def duplicateKey_def split: if_splits)

lemma toNumber_InrD: "toNumber v = Inr n \<Longrightarrow> n = v"
  by (simp add: toNumber_def split: if_splits)

lemma toNumber_InlD: "toNumber v = Inl err \<Longrightarrow> err \<noteq> duplicateKey"
  by (auto simp add: toNumber_def duplicateKey_def split: if_splits)

subsection \<open>Which tables an operation touches\<close>

lemma updateLastSyncedBlock_tables [simp]:
  "users (updateLastSyncedBlock n a b s) = users s"
  "ticketPurchases (updateLastSyncedBlock n a b s) = ticketPurchases s"
  "firstTicketBonuses (updateLastSyncedBlock n a b s) = firstTicketBonuses s"
  "rounds (updateLastSyncedBlock n a b s) = rounds s"
  "winEvents (updateLastSyncedBlock n a b s) = winEvents s"
  "userRoundStats (updateLastSyncedBlock n a b s) = userRoundStats s"
  by (simp_all add: updateLastSyncedBlock_def)

lemma getOrCreateUser_tables [simp]:
  "ticketPurchases (snd (getOrCreateUser u s)) = ticketPurchases s"
  "firstTicketBonuses (snd (getOrCreateUser u s)) = firstTicketBonuses s"
  "rounds (snd (getOrCreateUser u s)) = rounds s"
  "winEvents (snd (getOrCreateUser u s)) = winEvents s"
  "userRoundStats (snd (getOrCreateUser u s)) = userRoundStats s"
  "blockchainSync (snd (getOrCreateUser u s)) = blockchainSync s"
  "fst (getOrCreateUser u s) = u"
  by (simp_all add: getOrCreateUser_def)

lemma getOrCreateUser_users [simp]:
  "u \<in> set (users (snd (getOrCreateUser u s)))"
  "v \<in> set (users s) \<Longrightarrow> v \<in> set (users (snd (getOrCreateUser u s)))"
  by (simp_all add: getOrCreateUser_def)

lemma getOrCreateUser_known: "u \<in> set (users s) \<Longrightarrow> getOrCreateUser u s = (u, s)"
  by (simp add: getOrCreateUser_def)

lemma getOrCreateUser_eq: "getOrCreateUser u s = (u, snd (getOrCreateUser u s))"
  by (simp add: getOrCreateUser_def)

lemma fold_getOrCreateUser_tables [simp]:
  "ticketPurchases (fold (\<lambda>p t. snd (getOrCreateUser p t)) ps s) = ticketPurchases s"
  "firstTicketBonuses (fold (\<lambda>p t. snd (getOrCreateUser p t)) ps s) = firstTicketBonuses s"
  "rounds (fold (\<lambda>p t. snd (getOrCreateUser p t)) ps s) = rounds s"
  "winEvents (fold (\<lambda>p t. snd (getOrCreateUser p t)) ps s) = winEvents s"
  "userRoundStats (fold (\<lambda>p t. snd (getOrCreateUser p t)) ps s) = userRoundStats s"
  "blockchainSync (fold (\<lambda>p t. snd (getOrCreateUser p t)) ps s) = blockchainSync s"
  by (induction ps arbitrary: s) simp_all

text \<open>What a successful save leaves behind, and what a failed one throws.\<close>

lemma ticketPurchaseRepository_save_InrD:
  assumes "ticketPurchaseRepository_save r s = Inr s'"
  shows "s' = s\<lparr>ticketPurchases := ticketPurchases s @ [r]\<rparr>"
    and "find (\<lambda>x. tp_transactionHash x = tp_transactionHash r \<and> tp_logIndex x = tp_logIndex r)
           (ticketPurchases s) = None"
  using assms by (auto simp: ticketPurchaseRepository_save_def split: option.splits)

lemma ticketPurchaseRepository_save_duplicate:
  "ticketPurchaseRepository_save r s = Inl duplicateKey \<longleftrightarrow>
     columnCheck [tp_roundId r, tp_chainId r, tp_count r, tp_logIndex r] [tp_blockTimestamp r] = None
     \<and> find (\<lambda>x. tp_transactionHash x = tp_transactionHash r \<and> tp_logIndex x = tp_logIndex r)
           (ticketPurchases s) \<noteq> None"
  by (auto simp: ticketPurchaseRepository_save_def split: option.splits)

lemma ticketPurchaseRepository_save_frame:
  "ticketPurchases s' = ticketPurchases s \<Longrightarrow>
   ticketPurchaseRepository_save r s' = Inl err \<longleftrightarrow> ticketPurchaseRepository_save r s = Inl err"
  by (auto simp: ticketPurchaseRepository_save_def split: option.splits)

lemma userRoundStats_save_InrD:
  assumes "userRoundStats_save r s = Inr s'"
  shows "\<exists>rows. s' = s\<lparr>userRoundStats := rows\<rparr>"
  using assms by (auto simp: userRoundStats_save_def Let_def split: option.splits)

lemma userRoundStats_save_InlD:
  "userRoundStats_save r s = Inl err \<Longrightarrow> err \<noteq> duplicateKey"
  by (auto simp: userRoundStats_save_def Let_def split: option.splits)

lemma purchaseRoundStats_InrD:
  assumes "purchaseRoundStats u t i a n ts s = Inr s'"
  shows "\<exists>rows. s' = s\<lparr>userRoundStats := rows\<rparr>"
  using assms unfolding purchaseRoundStats_def Let_def by (rule userRoundStats_save_InrD)

lemma purchaseRoundStats_InlD:
  "purchaseRoundStats u t i a n ts s = Inl err \<Longrightarrow> err \<noteq> duplicateKey"
  unfolding purchaseRoundStats_def Let_def by (rule userRoundStats_save_InlD)

lemma winnerRoundStats_InrD:
  assumes "winnerRoundStats u t i a ts s = Inr s'"
  shows "\<exists>rows. s' = s\<lparr>userRoundStats := rows\<rparr>"
  using assms unfolding winnerRoundStats_def Let_def by (rule userRoundStats_save_InrD)

lemma findOne_frame [simp]:
  "userRoundStats_findOne u t i a (s\<lparr>users := us\<rparr>) = userRoundStats_findOne u t i a s"
  "userRoundStats_findOne u t i a (s\<lparr>ticketPurchases := tps\<rparr>) = userRoundStats_findOne u t i a s"
  "userRoundStats_findOne u t i a (s\<lparr>rounds := rs\<rparr>) = userRoundStats_findOne u t i a s"
  "userRoundStats_findOne u t i a (s\<lparr>firstTicketBonuses := fs\<rparr>) = userRoundStats_findOne u t i a s"
  "userRoundStats_findOne u t i a (s\<lparr>winEvents := ws\<rparr>) = userRoundStats_findOne u t i a s"
  "userRoundStats_findOne u t i a (updateLastSyncedBlock n ca b s) = userRoundStats_findOne u t i a s"
  "userRoundStats_findOne u t i a (snd (getOrCreateUser v s)) = userRoundStats_findOne u t i a s"
  by (simp_all add: userRoundStats_findOne_def)

lemma previousRoundQuery_frame [simp]:
  "previousRoundQuery u t a i (s\<lparr>users := us\<rparr>) = previousRoundQuery u t a i s"
  "previousRoundQuery u t a i (s\<lparr>ticketPurchases := tps\<rparr>) = previousRoundQuery u t a i s"
  "previousRoundQuery u t a i (s\<lparr>rounds := rs\<rparr>) = previousRoundQuery u t a i s"
  "previousRoundQuery u t a i (s\<lparr>firstTicketBonuses := fs\<rparr>) = previousRoundQuery u t a i s"
  "previousRoundQuery u t a i (s\<lparr>winEvents := ws\<rparr>) = previousRoundQuery u t a i s"
  "previousRoundQuery u t a i (updateLastSyncedBlock n ca b s) = previousRoundQuery u t a i s"
  "previousRoundQuery u t a i (snd (getOrCreateUser v s)) = previousRoundQuery u t a i s"
  by (simp_all add: previousRoundQuery_def)

lemma findOne_keyD:
  "userRoundStats_findOne u t i a s = Some r \<Longrightarrow>
     urs_user r = u \<and> urs_token r = t \<and> urs_roundId r = i \<and> urs_contractAddress r = a"
  by (auto simp: userRoundStats_findOne_def sameStatsKey_def find_Some_iff)

lemma findOne_userRoundStats_save:
  "userRoundStats_save r s = Inr s' \<Longrightarrow>
   urs_user r = u \<Longrightarrow> urs_token r = t \<Longrightarrow> urs_roundId r = i \<Longrightarrow> urs_contractAddress r = a \<Longrightarrow>
   userRoundStats_findOne u t i a s' = Some r"
  unfolding userRoundStats_findOne_def userRoundStats_save_def Let_def
  by (auto split: option.splits simp: find_replaceFirst find_snoc_new sameStatsKey_def)


subsection \<open>Evaluating the handlers on concrete stores\<close>

lemmas store_eval = processEvent_def processTicketPurchasedEvent_def emptyStore_def getOrCreateUser_def
   ticketPurchaseRepository_save_def userRoundStats_findOne_def previousRoundQuery_def userRoundStats_save_def
   updateLastSyncedBlock_def sameStatsKey_def purchaseRoundStats_def catchDuplicate_def duplicateKey_def
   getNumber_def toNumber_def columnCheck_def int4_def validDate_def numericValueOutOfRange_def
   invalidDatetime_def Let_def

lemmas solana_eval = processSolanaTicketPurchasedEvent_def solanaBonusRows_def solanaRoundAmounts_def
   roundRepository_insert_def firstTicketBonusRepository_save_def sameRound_def

subsection \<open>Idempotent application of a ticket purchase\<close>

lemma getOrCreateUser_idem [simp]:
  "getOrCreateUser u (snd (getOrCreateUser u s)) = (u, snd (getOrCreateUser u s))"
  by (simp add: getOrCreateUser_def)

text \<open>The handler of the log, once the two conversions went through.\<close>

lemma processTicketPurchasedEvent_converted:
  assumes "getNumber roundId = Inr r" "getNumber timestamp = Inr t"
  shows "processTicketPurchasedEvent token roundId buyer count totalAmount timestamp c s =
     (case ticketPurchaseRepository_save
             \<lparr>tp_buyer = buyer, tp_token = token, tp_roundId = roundId,
               tp_chainId = chainId c, tp_contractAddress = contractAddress c, tp_count = count,
               tp_totalAmount = totalAmount, tp_blockTimestamp = timestamp * 1000,
               tp_transactionHash = transactionHash c, tp_logIndex = logIndex c\<rparr>
             (snd (getOrCreateUser buyer s)) of
        Inl err \<Rightarrow> catchDuplicate err (snd (getOrCreateUser buyer s))
      | Inr s2 \<Rightarrow>
         (case purchaseRoundStats buyer token roundId (contractAddress c) count (timestamp * 1000) s2 of
            Inl err \<Rightarrow> catchDuplicate err s2
          | Inr s3 \<Rightarrow>
              (None, updateLastSyncedBlock (blockchainName c) (contractAddress c) (blockNumber c) s3)))"
  using assms getNumber_InrD[OF assms(1)] getNumber_InrD[OF assms(2)]
  by (simp add: processTicketPurchasedEvent_def split_beta Let_def split: sum.splits)

lemma processTicketPurchasedEvent_unconverted:
  assumes "getNumber roundId = Inl err \<or> getNumber timestamp = Inl err"
  shows "\<exists>err'. err' \<noteq> duplicateKey \<and> (\<forall>s. processTicketPurchasedEvent token roundId buyer count totalAmount timestamp c s =
     (Some err', snd (getOrCreateUser buyer s)))"
  using assms getNumber_cases[of roundId] getNumber_cases[of timestamp]
  by (auto simp: processTicketPurchasedEvent_def split_beta catchDuplicate_def duplicateKey_def)

lemma find_snoc_hit: "P y \<Longrightarrow> find P (xs @ [y]) \<noteq> None"
  by (induction xs) auto

lemma ticketPurchaseRepository_save_columns:
  "ticketPurchaseRepository_save r s = Inr s' \<Longrightarrow>
   columnCheck [tp_roundId r, tp_chainId r, tp_count r, tp_logIndex r] [tp_blockTimestamp r] = None"
  by (auto simp: ticketPurchaseRepository_save_def split: option.splits)

lemma ticketPurchaseRepository_save_again:
  assumes "columnCheck [tp_roundId r, tp_chainId r, tp_count r, tp_logIndex r] [tp_blockTimestamp r] = None"
    and "find (\<lambda>x. tp_transactionHash x = tp_transactionHash r \<and> tp_logIndex x = tp_logIndex r)
           (ticketPurchases s) \<noteq> None"
  shows "ticketPurchaseRepository_save r s = Inl duplicateKey"
  using assms by (auto simp: ticketPurchaseRepository_save_def split: option.splits)

lemma processTicketPurchasedEvent_outcome:
  assumes conv: "getNumber roundId = Inr r" "getNumber timestamp = Inr t"
    and save: "ticketPurchaseRepository_save
             \<lparr>tp_buyer = buyer, tp_token = token, tp_roundId = roundId,
               tp_chainId = chainId c, tp_contractAddress = contractAddress c, tp_count = count,
               tp_totalAmount = totalAmount, tp_blockTimestamp = timestamp * 1000,
               tp_transactionHash = transactionHash c, tp_logIndex = logIndex c\<rparr>
             (snd (getOrCreateUser buyer s)) = Inr s2"
  shows "(\<exists>err. err \<noteq> duplicateKey
            \<and> purchaseRoundStats buyer token roundId (contractAddress c) count (timestamp * 1000) s2 = Inl err
            \<and> processTicketPurchasedEvent token roundId buyer count totalAmount timestamp c s = (Some err, s2))
       \<or> (\<exists>s3. purchaseRoundStats buyer token roundId (contractAddress c) count (timestamp * 1000) s2 = Inr s3
            \<and> processTicketPurchasedEvent token roundId buyer count totalAmount timestamp c s =
                 (None, updateLastSyncedBlock (blockchainName c) (contractAddress c) (blockNumber c) s3))"
proof (cases "purchaseRoundStats buyer token roundId (contractAddress c) count (timestamp * 1000) s2")
  case (Inl err)
  then show ?thesis
    using purchaseRoundStats_InlD[OF Inl]
    by (simp add: processTicketPurchasedEvent_converted[OF conv] save catchDuplicate_def)
next
  case (Inr s3)
  then show ?thesis
    by (simp add: processTicketPurchasedEvent_converted[OF conv] save)
qed



text \<open>The same for the handler of the instruction.\<close>

lemma solanaBonusRows_tables [simp]:
  "ticketPurchases (snd (solanaBonusRows a cid sg ix evs s)) = ticketPurchases s"
  "winEvents (snd (solanaBonusRows a cid sg ix evs s)) = winEvents s"
  "userRoundStats (snd (solanaBonusRows a cid sg ix evs s)) = userRoundStats s"
  "blockchainSync (snd (solanaBonusRows a cid sg ix evs s)) = blockchainSync s"
  by (auto simp: solanaBonusRows_def firstTicketBonusRepository_save_def roundRepository_insert_def
      Let_def split_beta split: option.splits sol_event.splits sum.splits)

lemma solanaBonusRows_users:
  "u \<in> set (users s) \<Longrightarrow> u \<in> set (users (snd (solanaBonusRows a cid sg ix evs s)))"
  by (auto simp: solanaBonusRows_def firstTicketBonusRepository_save_def roundRepository_insert_def
      Let_def split_beta split: option.splits sol_event.splits sum.splits)

lemma solanaRoundAmounts_tables [simp]:
  "users (solanaRoundAmounts t i a cid pa ca s) = users s"
  "ticketPurchases (solanaRoundAmounts t i a cid pa ca s) = ticketPurchases s"
  "firstTicketBonuses (solanaRoundAmounts t i a cid pa ca s) = firstTicketBonuses s"
  "winEvents (solanaRoundAmounts t i a cid pa ca s) = winEvents s"
  "userRoundStats (solanaRoundAmounts t i a cid pa ca s) = userRoundStats s"
  "blockchainSync (solanaRoundAmounts t i a cid pa ca s) = blockchainSync s"
  by (simp_all add: solanaRoundAmounts_def Let_def split: option.splits)

lemma processSolanaTicketPurchasedEvent_converted:
  assumes ev: "find isTicketPurchased events =
      Some (EvTicketPurchased token roundId buyer count totalAmount prizeAmt commissionAmt timestamp)"
    and conv: "toNumber timestamp = Inr t"
  shows "processSolanaTicketPurchasedEvent programId cid sg block name ix events s =
     (case ticketPurchaseRepository_save
             \<lparr>tp_buyer = buyer, tp_token = token, tp_roundId = roundId,
               tp_chainId = cid, tp_contractAddress = programId, tp_count = count,
               tp_totalAmount = totalAmount, tp_blockTimestamp = timestamp * 1000,
               tp_transactionHash = sg, tp_logIndex = ix\<rparr>
             (snd (getOrCreateUser buyer s)) of
        Inl err \<Rightarrow> catchDuplicate err (snd (getOrCreateUser buyer s))
      | Inr s2 \<Rightarrow>
         (case purchaseRoundStats buyer token roundId programId count (timestamp * 1000) s2 of
            Inl err \<Rightarrow> catchDuplicate err s2
          | Inr s3 \<Rightarrow>
             (case fst (solanaBonusRows programId cid sg ix events s3) of
                Some err \<Rightarrow> catchDuplicate err (snd (solanaBonusRows programId cid sg ix events s3))
              | None \<Rightarrow>
                 (None, updateLastSyncedBlock name programId block
                          (solanaRoundAmounts token roundId programId cid prizeAmt commissionAmt
                             (snd (solanaBonusRows programId cid sg ix events s3)))))))"
  using toNumber_InrD[OF conv] conv
  by (simp add: processSolanaTicketPurchasedEvent_def ev split_beta Let_def
      split: sum.splits option.splits prod.splits)

lemma processSolanaTicketPurchasedEvent_unconverted:
  assumes ev: "find isTicketPurchased events =
      Some (EvTicketPurchased token roundId buyer count totalAmount prizeAmt commissionAmt timestamp)"
    and conv: "toNumber timestamp = Inl err"
  shows "processSolanaTicketPurchasedEvent programId cid sg block name ix events s =
     (Some err, snd (getOrCreateUser buyer s))"
  using toNumber_InlD[OF conv]
  by (simp add: processSolanaTicketPurchasedEvent_def ev conv split_beta Let_def catchDuplicate_def)

lemma processSolanaTicketPurchasedEvent_outcome:
  assumes ev: "find isTicketPurchased events =
      Some (EvTicketPurchased token roundId buyer count totalAmount prizeAmt commissionAmt timestamp)"
    and conv: "toNumber timestamp = Inr t"
    and save: "ticketPurchaseRepository_save
             \<lparr>tp_buyer = buyer, tp_token = token, tp_roundId = roundId,
               tp_chainId = cid, tp_contractAddress = programId, tp_count = count,
               tp_totalAmount = totalAmount, tp_blockTimestamp = timestamp * 1000,
               tp_transactionHash = sg, tp_logIndex = ix\<rparr>
             (snd (getOrCreateUser buyer s)) = Inr s2"
  shows "(\<exists>err. err \<noteq> duplicateKey
            \<and> purchaseRoundStats buyer token roundId programId count (timestamp * 1000) s2 = Inl err
            \<and> processSolanaTicketPurchasedEvent programId cid sg block name ix events s = (Some err, s2))
       \<or> (\<exists>s3 e s'. purchaseRoundStats buyer token roundId programId count (timestamp * 1000) s2 = Inr s3
            \<and> processSolanaTicketPurchasedEvent programId cid sg block name ix events s = (e, s')
            \<and> ticketPurchases s' = ticketPurchases s3 \<and> userRoundStats s' = userRoundStats s3
            \<and> (buyer \<in> set (users s3) \<longrightarrow> buyer \<in> set (users s')))"
proof (cases "purchaseRoundStats buyer token roundId programId count (timestamp * 1000) s2")
  case (Inl err)
  then show ?thesis
    using purchaseRoundStats_InlD[OF Inl]
    by (simp add: processSolanaTicketPurchasedEvent_converted[OF ev conv] save catchDuplicate_def)
next
  case (Inr s3)
  show ?thesis
  proof (cases "fst (solanaBonusRows programId cid sg ix events s3)")
    case None
    then show ?thesis
      by (simp add: processSolanaTicketPurchasedEvent_converted[OF ev conv] save Inr
          solanaBonusRows_users)
  next
    case (Some err)
    have "processSolanaTicketPurchasedEvent programId cid sg block name ix events s =
        catchDuplicate err (snd (solanaBonusRows programId cid sg ix events s3))"
      by (simp add: processSolanaTicketPurchasedEvent_converted[OF ev conv] save Inr Some)
    then have "processSolanaTicketPurchasedEvent programId cid sg block name ix events s =
        (fst (catchDuplicate err (snd (solanaBonusRows programId cid sg ix events s3))),
         snd (solanaBonusRows programId cid sg ix events s3))"
      by (simp add: prod_eq_iff)
    then show ?thesis
      by (simp add: Inr solanaBonusRows_users)
  qed
qed

lemma processSolanaTicketPurchasedEvent_duplicate:
  assumes ev: "find isTicketPurchased events =
      Some (EvTicketPurchased token roundId buyer count totalAmount prizeAmt commissionAmt timestamp)"
    and conv: "toNumber timestamp = Inr t"
    and "buyer \<in> set (users s)"
    and "columnCheck [roundId, cid, count, ix] [timestamp * 1000] = None"
    and "find (\<lambda>x. tp_transactionHash x = sg \<and> tp_logIndex x = ix) (ticketPurchases s) \<noteq> None"
  shows "processSolanaTicketPurchasedEvent programId cid sg block name ix events s = (None, s)"
proof -
  have "ticketPurchaseRepository_save
             \<lparr>tp_buyer = buyer, tp_token = token, tp_roundId = roundId,
               tp_chainId = cid, tp_contractAddress = programId, tp_count = count,
               tp_totalAmount = totalAmount, tp_blockTimestamp = timestamp * 1000,
               tp_transactionHash = sg, tp_logIndex = ix\<rparr> s = Inl duplicateKey"
    using assms(4,5) by (intro ticketPurchaseRepository_save_again) simp_all
  then show ?thesis
    by (simp add: processSolanaTicketPurchasedEvent_converted[OF ev conv]
        getOrCreateUser_known[OF assms(3)])
qed

lemma processSolanaTicketPurchasedEvent_again:
  assumes ev: "find isTicketPurchased events =
      Some (EvTicketPurchased token roundId buyer count totalAmount prizeAmt commissionAmt timestamp)"
  shows "snd (processSolanaTicketPurchasedEvent programId cid sg block name ix events
          (snd (processSolanaTicketPurchasedEvent programId cid sg block name ix events s)))
     = snd (processSolanaTicketPurchasedEvent programId cid sg block name ix events s)"
proof (cases "toNumber timestamp")
  case (Inl err)
  show ?thesis by (simp add: processSolanaTicketPurchasedEvent_unconverted[OF ev Inl])
next
  case (Inr t)
  note unfold = processSolanaTicketPurchasedEvent_converted[OF ev Inr]
  let ?row = "\<lparr>tp_buyer = buyer, tp_token = token, tp_roundId = roundId,
               tp_chainId = cid, tp_contractAddress = programId, tp_count = count,
               tp_totalAmount = totalAmount, tp_blockTimestamp = timestamp * 1000,
               tp_transactionHash = sg, tp_logIndex = ix\<rparr>"
  let ?s1 = "snd (getOrCreateUser buyer s)"
  show ?thesis
  proof (cases "ticketPurchaseRepository_save ?row ?s1")
    case (Inl err)
    then show ?thesis by (simp add: unfold)
  next
    case save: (Inr s2)
    note shape = ticketPurchaseRepository_save_InrD(1)[OF save]
    note cols = ticketPurchaseRepository_save_columns[OF save]
    let ?s' = "snd (processSolanaTicketPurchasedEvent programId cid sg block name ix events s)"
    have "buyer \<in> set (users ?s') \<and> ticketPurchases ?s' = ticketPurchases s @ [?row]"
      using processSolanaTicketPurchasedEvent_outcome[OF ev Inr save, of block name] shape
      by (auto dest!: purchaseRoundStats_InrD)
    then have "buyer \<in> set (users ?s')"
      and "find (\<lambda>x. tp_transactionHash x = sg \<and> tp_logIndex x = ix) (ticketPurchases ?s') \<noteq> None"
      by (simp_all add: find_snoc_hit)
    from processSolanaTicketPurchasedEvent_duplicate[OF ev Inr this(1) _ this(2)] cols
    show ?thesis by simp
  qed
qed






subsection \<open>Saves of the other tables\<close>

lemma firstTicketBonusRepository_save_InrD:
  "firstTicketBonusRepository_save r s = Inr s' \<Longrightarrow>
     s' = s\<lparr>firstTicketBonuses := firstTicketBonuses s @ [r]\<rparr>"
  by (auto simp: firstTicketBonusRepository_save_def split: option.splits)

lemma winEventRepository_save_InrD:
  "winEventRepository_save r s = Inr s' \<Longrightarrow> s' = s\<lparr>winEvents := winEvents s @ [r]\<rparr>"
  by (auto simp: winEventRepository_save_def split: option.splits)

lemma roundRepository_insert_InrD:
  "roundRepository_insert r s = Inr s' \<Longrightarrow> s' = s\<lparr>rounds := rounds s @ [r]\<rparr>"
  by (auto simp: roundRepository_insert_def split: option.splits)

lemma processSolanaTicketPurchasedEvent_absent:
  assumes "\<And>token roundId buyer count totalAmount prizeAmt commissionAmt timestamp.
     find isTicketPurchased events
       \<noteq> Some (EvTicketPurchased token roundId buyer count totalAmount prizeAmt commissionAmt timestamp)"
  shows "processSolanaTicketPurchasedEvent programId cid sg block name ix events s = (None, s)"
  using assms
  by (simp add: processSolanaTicketPurchasedEvent_def split: option.splits sol_event.splits)

subsection \<open>The previous-round query\<close>

lemma latestRound_None: "latestRound rows = None \<longleftrightarrow> rows = []"
  by (induction rows) (auto split: option.splits)

lemma latestRound_mem: "latestRound rows = Some m \<Longrightarrow> m \<in> set rows"
  by (induction rows arbitrary: m) (auto split: option.splits if_splits)

lemma latestRound_max:
  "latestRound rows = Some m \<Longrightarrow> x \<in> set rows \<Longrightarrow> urs_roundId x \<le> urs_roundId m"
  by (induction rows arbitrary: m) (auto split: option.splits if_splits simp: latestRound_None)

lemma previousRoundQuery_SomeD:
  assumes "previousRoundQuery u t a i s = Some m"
  shows "m \<in> set (userRoundStats s)" "urs_user m = u" "urs_token m = t"
    "urs_contractAddress m = a" "urs_roundId m < i"
  using latestRound_mem[OF assms[unfolded previousRoundQuery_def]] by auto

lemma previousRoundQuery_adjacent:
  assumes "p \<in> set (userRoundStats s)" "urs_user p = u" "urs_token p = t"
    "urs_contractAddress p = a" "urs_roundId p = i - 1"
  shows "\<exists>m. previousRoundQuery u t a i s = Some m \<and> urs_roundId m = i - 1"
proof -
  let ?rows = "filter (\<lambda>r. urs_user r = u \<and> urs_token r = t \<and> urs_contractAddress r = a
                           \<and> urs_roundId r < i) (userRoundStats s)"
  have mem: "p \<in> set ?rows" using assms by simp
  then have "?rows \<noteq> []" by (metis empty_iff empty_set)
  then have "latestRound ?rows \<noteq> None" by (simp only: latestRound_None not_False_eq_True)
  then obtain m where m: "latestRound ?rows = Some m" by blast
  have "urs_roundId p \<le> urs_roundId m" using latestRound_max[OF m mem] .
  moreover have "urs_roundId m < i" using latestRound_mem[OF m] by simp
  ultimately have "urs_roundId m = i - 1" using assms(5) by simp
  with m show ?thesis by (simp add: previousRoundQuery_def)
qed

subsection \<open>Rows marked consecutive keep their prior row\<close>

lemma streakRows_iff:
  "streakRows rows \<longleftrightarrow>
     (\<forall>r\<in>set rows. urs_isConsecutive r \<longrightarrow> (\<exists>p\<in>set rows. adjacentPrior r p))"
  by (auto simp: streakRows_def list_all_iff list_ex_iff)

lemma streakRows_snoc:
  assumes "streakRows rows" "urs_isConsecutive r \<longrightarrow> (\<exists>p\<in>set rows. adjacentPrior r p)"
  shows "streakRows (rows @ [r])"
  using assms unfolding streakRows_iff by auto

lemma set_replaceFirst: "set (replaceFirst P y xs) \<subseteq> insert y (set xs)"
  by (induction xs) auto

lemma replaceFirst_keeps:
  "x \<in> set xs \<Longrightarrow> x \<in> set (replaceFirst P y xs) \<or> (P x \<and> y \<in> set (replaceFirst P y xs))"
  by (induction xs) auto

lemma streakRows_replaceFirst:
  assumes inv: "streakRows rows"
    and new: "urs_isConsecutive r \<longrightarrow> (\<exists>p\<in>set rows. adjacentPrior r p)"
  shows "streakRows (replaceFirst (sameStatsKey (urs_user r) (urs_token r) (urs_roundId r)
                                     (urs_contractAddress r)) r rows)"
    (is "streakRows (replaceFirst ?k r rows)")
proof -
  have keep: "\<exists>p'\<in>set (replaceFirst ?k r rows). adjacentPrior x p'"
    if "p \<in> set rows" "adjacentPrior x p" for x p
    using replaceFirst_keeps[OF that(1), of ?k r] that(2)
    by (auto simp: adjacentPrior_def sameStatsKey_def)
  show ?thesis
    unfolding streakRows_iff
  proof (intro ballI impI)
    fix x assume x: "x \<in> set (replaceFirst ?k r rows)" and c: "urs_isConsecutive x"
    from x set_replaceFirst[of ?k r rows] have "x = r \<or> x \<in> set rows" by auto
    then obtain p where "p \<in> set rows" "adjacentPrior x p"
      using c new inv unfolding streakRows_iff by blast
    then show "\<exists>p\<in>set (replaceFirst ?k r rows). adjacentPrior x p" by (rule keep)
  qed
qed


lemma streakRows_save:
  assumes "streakRows (userRoundStats s)"
    and "urs_isConsecutive r \<longrightarrow> (\<exists>p\<in>set (userRoundStats s). adjacentPrior r p)"
    and "userRoundStats_save r s = Inr s'"
  shows "streakRows (userRoundStats s')"
proof -
  have "userRoundStats s' = userRoundStats s @ [r]
      \<or> userRoundStats s' = replaceFirst (sameStatsKey (urs_user r) (urs_token r) (urs_roundId r)
                                              (urs_contractAddress r)) r (userRoundStats s)"
    using assms(3) by (auto simp: userRoundStats_save_def Let_def split: option.splits)
  then show ?thesis
    using streakRows_snoc[OF assms(1,2)] streakRows_replaceFirst[OF assms(1,2)] by auto
qed

lemma findOne_mem:
  "userRoundStats_findOne u t i a s = Some r \<Longrightarrow> r \<in> set (userRoundStats s)"
  by (auto simp: userRoundStats_findOne_def find_Some_iff)

lemma streakRows_found:
  assumes "streakRows (userRoundStats s)" "userRoundStats_findOne u t i a s = Some r"
    "urs_isConsecutive r"
  shows "\<exists>p\<in>set (userRoundStats s). urs_user p = u \<and> urs_token p = t
           \<and> urs_contractAddress p = a \<and> urs_roundId p = i - 1"
  using assms(1) findOne_mem[OF assms(2)] assms(3) findOne_keyD[OF assms(2)]
  unfolding streakRows_iff adjacentPrior_def by fastforce

lemma streakRows_purchaseRoundStats:
  assumes inv: "streakRows (userRoundStats s)"
    and stats: "purchaseRoundStats u t i a n ts s = Inr s'"
  shows "streakRows (userRoundStats s')"
proof (rule streakRows_save[OF inv _ stats[unfolded purchaseRoundStats_def Let_def]], goal_cases)
  case 1
  have prior: "\<exists>p\<in>set (userRoundStats s). urs_user p = u \<and> urs_token p = t
           \<and> urs_contractAddress p = a \<and> urs_roundId p = i - 1"
    if "previousRoundQuery u t a i s = Some m" "urs_roundId m = i - 1" for m
    using previousRoundQuery_SomeD[OF that(1)] that(2) by auto
  show ?case
  proof (cases "userRoundStats_findOne u t i a s")
    case None
    then show ?thesis
      using prior by (auto split: option.splits simp: adjacentPrior_def)
  next
    case (Some r0)
    note key = findOne_keyD[OF Some]
    have old: "urs_isConsecutive r0 \<Longrightarrow> \<exists>p\<in>set (userRoundStats s). urs_user p = u \<and> urs_token p = t
           \<and> urs_contractAddress p = a \<and> urs_roundId p = i - 1"
      using streakRows_found[OF inv Some] .
    show ?thesis
      using Some key old prior by (auto split: option.splits simp: adjacentPrior_def)
  qed
qed

lemma streak_purchaseRoundStats:
  assumes inv: "streakRows (userRoundStats s)"
    and stats: "purchaseRoundStats u t i a n ts s = Inr s'"
  shows "\<exists>row. userRoundStats_findOne u t i a s' = Some row
           \<and> streakAsSpecified (previousRoundQuery u t a i s) i row"
proof (cases "userRoundStats_findOne u t i a s")
  case None
  show ?thesis
    using stats unfolding purchaseRoundStats_def Let_def streakAsSpecified_def None
    by (auto dest!: findOne_userRoundStats_save[where u = u and t = t and i = i and a = a]
        split: option.splits if_splits)
next
  case (Some r0)
  note key = findOne_keyD[OF Some]
  have old: "urs_isConsecutive r0 \<Longrightarrow> \<exists>m. previousRoundQuery u t a i s = Some m \<and> urs_roundId m = i - 1"
    using streakRows_found[OF inv Some] previousRoundQuery_adjacent by blast
  show ?thesis
    using stats key old unfolding purchaseRoundStats_def Let_def streakAsSpecified_def Some
    by (auto dest!: findOne_userRoundStats_save[where u = u and t = t and i = i and a = a]
        split: option.splits if_splits)
qed

lemma streakRows_winnerRoundStats:
  assumes inv: "streakRows (userRoundStats s)"
    and stats: "winnerRoundStats u t i a ts s = Inr s'"
  shows "streakRows (userRoundStats s')"
proof (rule streakRows_save[OF inv _ stats[unfolded winnerRoundStats_def Let_def]], goal_cases)
  case 1
  show ?case
  proof (cases "userRoundStats_findOne u t i a s")
    case None
    then show ?thesis by simp
  next
    case (Some r0)
    show ?thesis
      using Some streakRows_found[OF inv Some] findOne_keyD[OF Some]
      by (auto simp: adjacentPrior_def)
  qed
qed

subsection \<open>Every handler keeps the prior rows\<close>

lemma streakRows_processTicketPurchasedEvent:
  assumes inv: "streakRows (userRoundStats s)"
  shows "streakRows (userRoundStats (snd (processTicketPurchasedEvent token roundId buyer count
                                      totalAmount timestamp c s)))"
proof (cases "\<exists>r t. getNumber roundId = Inr r \<and> getNumber timestamp = Inr t")
  case False
  then have "\<exists>err. getNumber roundId = Inl err \<or> getNumber timestamp = Inl err"
    using getNumber_cases[of roundId] getNumber_cases[of timestamp] by auto
  then obtain err where "getNumber roundId = Inl err \<or> getNumber timestamp = Inl err" ..
  from processTicketPurchasedEvent_unconverted[OF this, of token buyer count totalAmount c]
  show ?thesis using inv by auto
next
  case True
  then obtain r t where conv: "getNumber roundId = Inr r" "getNumber timestamp = Inr t" by blast
  let ?row = "\<lparr>tp_buyer = buyer, tp_token = token, tp_roundId = roundId,
               tp_chainId = chainId c, tp_contractAddress = contractAddress c, tp_count = count,
               tp_totalAmount = totalAmount, tp_blockTimestamp = timestamp * 1000,
               tp_transactionHash = transactionHash c, tp_logIndex = logIndex c\<rparr>"
  show ?thesis
  proof (cases "ticketPurchaseRepository_save ?row (snd (getOrCreateUser buyer s))")
    case (Inl err)
    then show ?thesis using inv by (simp add: processTicketPurchasedEvent_converted[OF conv])
  next
    case (Inr s2)
    have s2: "streakRows (userRoundStats s2)"
      using inv by (simp add: ticketPurchaseRepository_save_InrD(1)[OF Inr])
    from processTicketPurchasedEvent_outcome[OF conv Inr]
    show ?thesis
      using s2 by (auto intro: streakRows_purchaseRoundStats[OF s2])
  qed
qed

lemma streakRows_processFirstTicketBonusEvent:
  "streakRows (userRoundStats s) \<Longrightarrow>
   streakRows (userRoundStats (snd (processFirstTicketBonusEvent token roundId buyer timestamp
                                      roundStartTime roundEndTime c s)))"
  by (auto simp: processFirstTicketBonusEvent_def Let_def split_beta split: sum.splits
      dest!: roundRepository_insert_InrD firstTicketBonusRepository_save_InrD)

lemma streakRows_processWinnerPickedEvent:
  assumes inv: "streakRows (userRoundStats s)"
  shows "streakRows (userRoundStats (snd (processWinnerPickedEvent roundResultOf token roundId
                                      timestamp c s)))"
proof -
  have step: "streakRows (userRoundStats s2)"
    if "winnerRoundStats u t i a ts (snd (getOrCreateUser w s)) = Inr s2" for u t i a ts w s2
    using streakRows_winnerRoundStats[OF _ that] inv by simp
  show ?thesis
    using inv
    by (auto simp: processWinnerPickedEvent_def Let_def split_beta
        split: sum.splits option.splits
        dest!: winEventRepository_save_InrD dest: step)
qed

lemma streakRows_processEvent:
  "streakRows (userRoundStats s) \<Longrightarrow>
   streakRows (userRoundStats (snd (processEvent roundResultOf configChainId event name contractAddr s)))"
  unfolding processEvent_def Let_def
  by (simp add: streakRows_processTicketPurchasedEvent streakRows_processFirstTicketBonusEvent
        streakRows_processWinnerPickedEvent split: event_args.splits sum.splits)

lemma streakRows_processSolanaTicketPurchasedEvent:
  assumes inv: "streakRows (userRoundStats s)"
  shows "streakRows (userRoundStats (snd (processSolanaTicketPurchasedEvent programId cid sg block name
                                      ix events s)))"
proof (cases "\<exists>token roundId buyer count totalAmount prizeAmt commissionAmt timestamp.
     find isTicketPurchased events
       = Some (EvTicketPurchased token roundId buyer count totalAmount prizeAmt commissionAmt timestamp)")
  case False
  then show ?thesis
    using inv by (simp add: processSolanaTicketPurchasedEvent_absent)
next
  case True
  then obtain token roundId buyer count totalAmount prizeAmt commissionAmt timestamp
    where ev: "find isTicketPurchased events
       = Some (EvTicketPurchased token roundId buyer count totalAmount prizeAmt commissionAmt timestamp)"
    by blast
  show ?thesis
  proof (cases "toNumber timestamp")
    case (Inl err)
    show ?thesis
      using inv by (simp add: processSolanaTicketPurchasedEvent_unconverted[OF ev Inl])
  next
    case conv: (Inr t)
    let ?row = "\<lparr>tp_buyer = buyer, tp_token = token, tp_roundId = roundId,
               tp_chainId = cid, tp_contractAddress = programId, tp_count = count,
               tp_totalAmount = totalAmount, tp_blockTimestamp = timestamp * 1000,
               tp_transactionHash = sg, tp_logIndex = ix\<rparr>"
    show ?thesis
    proof (cases "ticketPurchaseRepository_save ?row (snd (getOrCreateUser buyer s))")
      case (Inl err)
      then show ?thesis
        using inv by (simp add: processSolanaTicketPurchasedEvent_converted[OF ev conv])
    next
      case (Inr s2)
      have s2: "streakRows (userRoundStats s2)"
        using inv by (simp add: ticketPurchaseRepository_save_InrD(1)[OF Inr])
      from processSolanaTicketPurchasedEvent_outcome[OF ev conv Inr, of block name]
      show ?thesis
        using s2 by (auto dest: streakRows_purchaseRoundStats[OF s2])
    qed
  qed
qed

lemma streakRows_processSolanaWinnerPickedEvent:
  assumes inv: "streakRows (userRoundStats s)"
  shows "streakRows (userRoundStats (snd (processSolanaWinnerPickedEvent env programId cid sg block name
                                      ix events s)))"
proof -
  have step: "streakRows (userRoundStats s2)"
    if "winnerRoundStats u t i a ts (snd (getOrCreateUser w s)) = Inr s2" for u t i a ts w s2
    using streakRows_winnerRoundStats[OF _ that] inv by simp
  show ?thesis
    using inv
    by (auto simp: processSolanaWinnerPickedEvent_def Let_def split_beta
        split: sum.splits option.splits sol_event.splits
        dest!: winEventRepository_save_InrD dest: step)
qed

lemma processAllRequestsCompletedEvent_stats [simp]:
  "userRoundStats (snd (processAllRequestsCompletedEvent env programId sg block name events s)) =
     userRoundStats s"
  by (auto simp: processAllRequestsCompletedEvent_def split: option.splits)

lemma processSolanaPrizeClaimedEvent_stats [simp]:
  "userRoundStats (snd (processSolanaPrizeClaimedEvent programId sg block name events s)) =
     userRoundStats s"
  by (auto simp: processSolanaPrizeClaimedEvent_def Let_def split: option.splits sol_event.splits)

lemma streakRows_decodeSolanaInstruction:
  "streakRows (userRoundStats s) \<Longrightarrow>
   streakRows (userRoundStats (snd (decodeSolanaInstruction env hasIdl programId cid name instruction tx
                                      sg block ix isHistorical s)))"
  by (simp add: decodeSolanaInstruction_def Let_def streakRows_processSolanaTicketPurchasedEvent
      streakRows_processSolanaWinnerPickedEvent split: option.splits)

lemma reachable_streakRows: "reachable s \<Longrightarrow> streakRows (userRoundStats s)"
proof (induction rule: reachable.induct)
  case initial
  show ?case by (simp add: emptyStore_def streakRows_def)
next
  case (log_event s roundResultOf configChainId event name contractAddr)
  then show ?case by (intro streakRows_processEvent)
next
  case (instruction s env hasIdl programId configChainId name instruction tx signature block
      instructionIndex isHistorical)
  then show ?case by (intro streakRows_decodeSolanaInstruction)
next
  case (cursor s name contractAddr position)
  then show ?case by simp
qed

subsection \<open>The streak of an applied purchase\<close>

lemma processTicketPurchasedEvent_applied:
  assumes fresh: "find (\<lambda>x. tp_transactionHash x = transactionHash c \<and> tp_logIndex x = logIndex c)
                  (ticketPurchases s) = None"
    and normal: "fst (processTicketPurchasedEvent token roundId buyer count totalAmount timestamp c s) = None"
  shows "\<exists>s2 s3. userRoundStats s2 = userRoundStats s
     \<and> purchaseRoundStats buyer token roundId (contractAddress c) count (timestamp * 1000) s2 = Inr s3
     \<and> userRoundStats (snd (processTicketPurchasedEvent token roundId buyer count totalAmount
                               timestamp c s)) = userRoundStats s3"
proof (cases "\<exists>r t. getNumber roundId = Inr r \<and> getNumber timestamp = Inr t")
  case False
  then have "\<exists>err. getNumber roundId = Inl err \<or> getNumber timestamp = Inl err"
    using getNumber_cases[of roundId] getNumber_cases[of timestamp] by auto
  then obtain err where "getNumber roundId = Inl err \<or> getNumber timestamp = Inl err" ..
  from processTicketPurchasedEvent_unconverted[OF this, of token buyer count totalAmount c] normal
  show ?thesis by auto
next
  case True
  then obtain r t where conv: "getNumber roundId = Inr r" "getNumber timestamp = Inr t" by blast
  let ?row = "\<lparr>tp_buyer = buyer, tp_token = token, tp_roundId = roundId,
               tp_chainId = chainId c, tp_contractAddress = contractAddress c, tp_count = count,
               tp_totalAmount = totalAmount, tp_blockTimestamp = timestamp * 1000,
               tp_transactionHash = transactionHash c, tp_logIndex = logIndex c\<rparr>"
  show ?thesis
  proof (cases "ticketPurchaseRepository_save ?row (snd (getOrCreateUser buyer s))")
    case (Inl err)
    have "err \<noteq> duplicateKey"
      using Inl fresh by (auto simp: ticketPurchaseRepository_save_duplicate)
    then show ?thesis
      using normal by (simp add: processTicketPurchasedEvent_converted[OF conv] Inl)
  next
    case (Inr s2)
    have rows: "userRoundStats s2 = userRoundStats s"
      by (simp add: ticketPurchaseRepository_save_InrD(1)[OF Inr])
    from processTicketPurchasedEvent_outcome[OF conv Inr] normal rows
    show ?thesis by auto
  qed
qed

lemma processSolanaTicketPurchasedEvent_applied:
  assumes ev: "find isTicketPurchased events =
      Some (EvTicketPurchased token roundId buyer count totalAmount prizeAmt commissionAmt timestamp)"
    and fresh: "find (\<lambda>x. tp_transactionHash x = sg \<and> tp_logIndex x = ix) (ticketPurchases s) = None"
    and normal: "fst (processSolanaTicketPurchasedEvent programId cid sg block name ix events s) = None"
  shows "\<exists>s2 s3. userRoundStats s2 = userRoundStats s
     \<and> purchaseRoundStats buyer token roundId programId count (timestamp * 1000) s2 = Inr s3
     \<and> userRoundStats (snd (processSolanaTicketPurchasedEvent programId cid sg block name ix events s))
         = userRoundStats s3"
proof (cases "toNumber timestamp")
  case (Inl err)
  from processSolanaTicketPurchasedEvent_unconverted[OF ev Inl, of programId cid sg block name ix s] normal
  show ?thesis by simp
next
  case conv: (Inr t)
  let ?row = "\<lparr>tp_buyer = buyer, tp_token = token, tp_roundId = roundId,
               tp_chainId = cid, tp_contractAddress = programId, tp_count = count,
               tp_totalAmount = totalAmount, tp_blockTimestamp = timestamp * 1000,
               tp_transactionHash = sg, tp_logIndex = ix\<rparr>"
  show ?thesis
  proof (cases "ticketPurchaseRepository_save ?row (snd (getOrCreateUser buyer s))")
    case (Inl err)
    have "err \<noteq> duplicateKey"
      using Inl fresh by (auto simp: ticketPurchaseRepository_save_duplicate)
    then show ?thesis
      using normal by (simp add: processSolanaTicketPurchasedEvent_converted[OF ev conv] Inl)
  next
    case (Inr s2)
    have rows: "userRoundStats s2 = userRoundStats s"
      by (simp add: ticketPurchaseRepository_save_InrD(1)[OF Inr])
    from processSolanaTicketPurchasedEvent_outcome[OF ev conv Inr, of block name] normal rows
    show ?thesis by auto
  qed
qed

lemma findOne_rows:
  "userRoundStats s' = userRoundStats s \<Longrightarrow>
   userRoundStats_findOne u t i a s' = userRoundStats_findOne u t i a s"
  by (simp add: userRoundStats_findOne_def)

lemma previousRoundQuery_rows:
  "userRoundStats s' = userRoundStats s \<Longrightarrow>
   previousRoundQuery u t a i s' = previousRoundQuery u t a i s"
  by (simp add: previousRoundQuery_def)

text \<open>
  C2. On every store the service can produce, a ticket purchase that is not a duplicate
  and whose handler returns normally leaves the buyer's row of the round with the streak
  the specification states, computed from the most recent prior row of the same user,
  token and contract: consecutive with count prior + 1 (prior consecutive) or 1 when the
  prior row is the round before, not consecutive with count 0 otherwise. This holds for
  the handler of the EVM log and for the handler of the Solana instruction.
\<close>

theorem streak_of_ticket_purchase:
  assumes "reachable s"
  shows "(find (\<lambda>x. tp_transactionHash x = transactionHash c \<and> tp_logIndex x = logIndex c)
            (ticketPurchases s) = None
          \<and> fst (processTicketPurchasedEvent token roundId buyer count totalAmount timestamp c s) = None
          \<longrightarrow>
          (\<exists>row. userRoundStats_findOne buyer token roundId (contractAddress c)
                   (snd (processTicketPurchasedEvent token roundId buyer count totalAmount timestamp c s))
                 = Some row
              \<and> streakAsSpecified (previousRoundQuery buyer token (contractAddress c) roundId s)
                   roundId row))
     \<and> (find isTicketPurchased events
            = Some (EvTicketPurchased token roundId buyer count totalAmount prizeAmt commissionAmt timestamp)
          \<and> find (\<lambda>x. tp_transactionHash x = signature \<and> tp_logIndex x = instructionIndex)
              (ticketPurchases s) = None
          \<and> fst (processSolanaTicketPurchasedEvent programId configChainId signature block name
                    instructionIndex events s) = None
          \<longrightarrow>
          (\<exists>row. userRoundStats_findOne buyer token roundId programId
                   (snd (processSolanaTicketPurchasedEvent programId configChainId signature block name
                           instructionIndex events s))
                 = Some row
              \<and> streakAsSpecified (previousRoundQuery buyer token programId roundId s) roundId row))"
proof (intro conjI impI; elim conjE)
  note inv = reachable_streakRows[OF assms]
  {
    assume fresh: "find (\<lambda>x. tp_transactionHash x = transactionHash c \<and> tp_logIndex x = logIndex c)
            (ticketPurchases s) = None"
      and normal: "fst (processTicketPurchasedEvent token roundId buyer count totalAmount timestamp c s)
            = None"
    from processTicketPurchasedEvent_applied[OF fresh normal]
    obtain s2 s3 where rows: "userRoundStats s2 = userRoundStats s"
      and stats: "purchaseRoundStats buyer token roundId (contractAddress c) count (timestamp * 1000) s2
                    = Inr s3"
      and after: "userRoundStats (snd (processTicketPurchasedEvent token roundId buyer count totalAmount
                               timestamp c s)) = userRoundStats s3"
      by blast
    have inv2: "streakRows (userRoundStats s2)" using inv rows by simp
    from streak_purchaseRoundStats[OF inv2 stats]
    show "\<exists>row. userRoundStats_findOne buyer token roundId (contractAddress c)
                   (snd (processTicketPurchasedEvent token roundId buyer count totalAmount timestamp c s))
                 = Some row
              \<and> streakAsSpecified (previousRoundQuery buyer token (contractAddress c) roundId s)
                   roundId row"
      by (simp add: findOne_rows[OF after] previousRoundQuery_rows[OF rows])
  }
  {
    assume ev: "find isTicketPurchased events
            = Some (EvTicketPurchased token roundId buyer count totalAmount prizeAmt commissionAmt timestamp)"
      and fresh: "find (\<lambda>x. tp_transactionHash x = signature \<and> tp_logIndex x = instructionIndex)
              (ticketPurchases s) = None"
      and normal: "fst (processSolanaTicketPurchasedEvent programId configChainId signature block name
                    instructionIndex events s) = None"
    from processSolanaTicketPurchasedEvent_applied[OF ev fresh normal]
    obtain s2 s3 where rows: "userRoundStats s2 = userRoundStats s"
      and stats: "purchaseRoundStats buyer token roundId programId count (timestamp * 1000) s2 = Inr s3"
      and after: "userRoundStats (snd (processSolanaTicketPurchasedEvent programId configChainId
                     signature block name instructionIndex events s)) = userRoundStats s3"
      by blast
    have inv2: "streakRows (userRoundStats s2)" using inv rows by simp
    from streak_purchaseRoundStats[OF inv2 stats]
    show "\<exists>row. userRoundStats_findOne buyer token roundId programId
                   (snd (processSolanaTicketPurchasedEvent programId configChainId signature block name
                           instructionIndex events s))
                 = Some row
              \<and> streakAsSpecified (previousRoundQuery buyer token programId roundId s) roundId row"
      by (simp add: findOne_rows[OF after] previousRoundQuery_rows[OF rows])
  }
qed

lemma storeAfterRounds56_rows:
  "userRoundStats storeAfterRounds56 =
     [\<lparr>urs_user = ''alice'', urs_token = ''T'', urs_roundId = 5, urs_contractAddress = ''0xC'',
        urs_ticketCount = 1, urs_isConsecutive = False, urs_consecutiveRounds = 0, urs_totalWins = 0,
        urs_roundTimestamp = 1700000\<rparr>,
      \<lparr>urs_user = ''alice'', urs_token = ''T'', urs_roundId = 6, urs_contractAddress = ''0xC'',
        urs_ticketCount = 1, urs_isConsecutive = True, urs_consecutiveRounds = 1, urs_totalWins = 0,
        urs_roundTimestamp = 1700000\<rparr>]"
  "map tp_transactionHash (ticketPurchases storeAfterRounds56) = [''0xA'', ''0xB'']"
  by (simp_all add: storeAfterRounds56_def examplePurchase_def noRoundResult_def store_eval)

theorem streak_of_ticket_purchase_witness:
  "reachable storeAfterRounds56
   \<and> map (\<lambda>r. (urs_roundId r, urs_isConsecutive r, urs_consecutiveRounds r))
        (userRoundStats storeAfterRounds56) = [(5, False, 0), (6, True, 1)]
   \<and> fst (processTicketPurchasedEvent ''T'' 8 ''alice'' 1 100 1700 round8Ctx storeAfterRounds56) = None
   \<and> (\<exists>row. userRoundStats_findOne ''alice'' ''T'' 8 ''0xC''
              (snd (processTicketPurchasedEvent ''T'' 8 ''alice'' 1 100 1700 round8Ctx storeAfterRounds56))
            = Some row \<and> \<not> urs_isConsecutive row \<and> urs_consecutiveRounds row = 0)
   \<and> fst (processSolanaTicketPurchasedEvent ''0xC'' 1 ''sig8'' 80 ''solana'' 0
            [EvTicketPurchased ''T'' 8 ''alice'' 1 100 90 10 1700] storeAfterRounds56) = None
   \<and> (\<exists>row. userRoundStats_findOne ''alice'' ''T'' 8 ''0xC''
              (snd (processSolanaTicketPurchasedEvent ''0xC'' 1 ''sig8'' 80 ''solana'' 0
                      [EvTicketPurchased ''T'' 8 ''alice'' 1 100 90 10 1700] storeAfterRounds56))
            = Some row \<and> \<not> urs_isConsecutive row \<and> urs_consecutiveRounds row = 0)"
proof -
  have reach: "reachable storeAfterRounds56"
    unfolding storeAfterRounds56_def by (intro reachable.intros)
  have prev: "previousRoundQuery ''alice'' ''T'' ''0xC'' 8 storeAfterRounds56 =
      Some \<lparr>urs_user = ''alice'', urs_token = ''T'', urs_roundId = 6, urs_contractAddress = ''0xC'',
        urs_ticketCount = 1, urs_isConsecutive = True, urs_consecutiveRounds = 1, urs_totalWins = 0,
        urs_roundTimestamp = 1700000\<rparr>"
    by (simp add: previousRoundQuery_def storeAfterRounds56_rows)
  have fresh: "find (\<lambda>x. tp_transactionHash x = ''0xD'' \<and> tp_logIndex x = 0)
                 (ticketPurchases storeAfterRounds56) = None"
       "find (\<lambda>x. tp_transactionHash x = ''sig8'' \<and> tp_logIndex x = 0)
                 (ticketPurchases storeAfterRounds56) = None"
    by (simp_all add: storeAfterRounds56_def examplePurchase_def noRoundResult_def store_eval)
  have normal: "fst (processTicketPurchasedEvent ''T'' 8 ''alice'' 1 100 1700 round8Ctx storeAfterRounds56)
        = None"
      "fst (processSolanaTicketPurchasedEvent ''0xC'' 1 ''sig8'' 80 ''solana'' 0
            [EvTicketPurchased ''T'' 8 ''alice'' 1 100 90 10 1700] storeAfterRounds56) = None"
    by (simp_all add: storeAfterRounds56_def examplePurchase_def noRoundResult_def round8Ctx_def
        store_eval solana_eval)
  show ?thesis
    using reach streak_of_ticket_purchase[OF reach, where c = round8Ctx and buyer = "''alice''"
        and token = "''T''" and roundId = 8 and count = 1 and totalAmount = 100 and timestamp = 1700
        and events = "[EvTicketPurchased ''T'' 8 ''alice'' 1 100 90 10 1700]" and prizeAmt = 90
        and commissionAmt = 10 and signature = "''sig8''" and instructionIndex = 0
        and programId = "''0xC''" and configChainId = 1 and block = 80 and name = "''solana''"]
    by (simp add: storeAfterRounds56_rows prev streakAsSpecified_def round8Ctx_def fresh
        normal[unfolded round8Ctx_def])
qed

subsection \<open>Reading the cursor back\<close>


subsection \<open>Chunks of a backfill\<close>












subsection \<open>Re-delivery of a first-ticket bonus\<close>

lemmas bonus_eval = processFirstTicketBonusEvent_def firstTicketBonusRepository_save_def
  roundRepository_insert_def getOrCreateUser_def catchDuplicate_def duplicateKey_def
  updateLastSyncedBlock_def emptyStore_def getNumber_def columnCheck_def int4_def validDate_def
  Let_def

text \<open>
  C5. The same FirstTicketBonusAwarded log (transaction 0xA, index 0, token T, round 5)
  applied twice to the empty store: the bonus row is stored once, the second insert is
  rejected as a duplicate and swallowed, but the Round row is inserted before that check
  and the rounds table has no unique index, so two Round rows of the same contract, token
  and round id remain.
\<close>

theorem first_ticket_bonus_redelivered:
  "length (firstTicketBonuses bonusTwice) = 1
   \<and> fst (processFirstTicketBonusEvent ''T'' 5 ''alice'' 1700 1000 2000 bonusCtx bonusOnce) = None
   \<and> length (rounds bonusOnce) = 1
   \<and> map (\<lambda>r. (rd_contractAddress r, rd_token r, rd_roundId r)) (rounds bonusTwice)
        = [(''0xC'', ''T'', 5), (''0xC'', ''T'', 5)]"
  by (simp add: bonusTwice_def bonusOnce_def bonusCtx_def bonus_eval)

text \<open>
  The handler of the Solana instruction writes the round only after the insert of the
  purchase row went through, so there a re-delivered transaction adds no round: it leaves
  the store as the first delivery left it.
\<close>

lemma processSolanaTicketPurchasedEvent_redelivered:
  "snd (processSolanaTicketPurchasedEvent programId cid sg block name ix events
          (snd (processSolanaTicketPurchasedEvent programId cid sg block name ix events s)))
   = snd (processSolanaTicketPurchasedEvent programId cid sg block name ix events s)"
proof (cases "\<exists>token roundId buyer count totalAmount prizeAmt commissionAmt timestamp.
     find isTicketPurchased events
       = Some (EvTicketPurchased token roundId buyer count totalAmount prizeAmt commissionAmt timestamp)")
  case False
  then show ?thesis by (simp add: processSolanaTicketPurchasedEvent_absent)
next
  case True
  then show ?thesis using processSolanaTicketPurchasedEvent_again by blast
qed

subsection \<open>Writes to the sync cursor\<close>

lemma blockchainSync_updateLastSyncedBlock:
  "blockchainSync (updateLastSyncedBlock name contractAddr position s) =
     (if position = 0 \<or> name = [] \<or> contractAddr = [] then blockchainSync s
      else AList.update (name, contractAddr) position (blockchainSync s))"
  by (simp add: updateLastSyncedBlock_def)

lemma cursor_after_update:
  "getLastSyncedBlock name contractAddr (updateLastSyncedBlock name contractAddr position s) =
     (if position = 0 \<or> name = [] \<or> contractAddr = [] then getLastSyncedBlock name contractAddr s
      else Some position)"
  by (simp add: getLastSyncedBlock_def updateLastSyncedBlock_def update_conv')

text \<open>A step that leaves the cursor table alone or ends in one cursor update.\<close>

lemma writesAtMost_cursor:
  assumes "writesAtMost name contractAddr position s s'"
    and "case getLastSyncedBlock name contractAddr s of None \<Rightarrow> True | Some old \<Rightarrow> old \<le> position"
  shows "cursorNotLowered (getLastSyncedBlock name contractAddr s) (getLastSyncedBlock name contractAddr s')"
proof -
  have "getLastSyncedBlock name contractAddr s' = getLastSyncedBlock name contractAddr s
      \<or> getLastSyncedBlock name contractAddr s'
          = getLastSyncedBlock name contractAddr (updateLastSyncedBlock name contractAddr position s)"
    using assms(1) by (auto simp: writesAtMost_def getLastSyncedBlock_def)
  then show ?thesis
    using assms(2)
    by (auto simp: cursor_after_update cursorNotLowered_def split: option.splits if_splits)
qed

lemma save_sync:
  "ticketPurchaseRepository_save tp s = Inr s' \<Longrightarrow> blockchainSync s' = blockchainSync s"
  "firstTicketBonusRepository_save ftb s = Inr s' \<Longrightarrow> blockchainSync s' = blockchainSync s"
  "winEventRepository_save we s = Inr s' \<Longrightarrow> blockchainSync s' = blockchainSync s"
  "roundRepository_insert rd s = Inr s' \<Longrightarrow> blockchainSync s' = blockchainSync s"
  "purchaseRoundStats u t i a n ts s = Inr s' \<Longrightarrow> blockchainSync s' = blockchainSync s"
  "winnerRoundStats u t i a ts s = Inr s' \<Longrightarrow> blockchainSync s' = blockchainSync s"
  by (auto dest!: ticketPurchaseRepository_save_InrD(1) firstTicketBonusRepository_save_InrD
      winEventRepository_save_InrD roundRepository_insert_InrD purchaseRoundStats_InrD
      winnerRoundStats_InrD)

lemma writesAtMost_processTicketPurchasedEvent:
  "writesAtMost (blockchainName c) (contractAddress c) (blockNumber c) s
     (snd (processTicketPurchasedEvent token roundId buyer count totalAmount timestamp c s))"
  by (auto simp: writesAtMost_def processTicketPurchasedEvent_def
      blockchainSync_updateLastSyncedBlock Let_def split_beta
      split: sum.splits dest!: save_sync)

lemma writesAtMost_processFirstTicketBonusEvent:
  "writesAtMost (blockchainName c) (contractAddress c) (blockNumber c) s
     (snd (processFirstTicketBonusEvent token roundId buyer timestamp roundStartTime roundEndTime c s))"
  by (auto simp: writesAtMost_def processFirstTicketBonusEvent_def
      blockchainSync_updateLastSyncedBlock Let_def split_beta
      split: sum.splits dest!: save_sync)

lemma writesAtMost_processWinnerPickedEvent:
  "writesAtMost (blockchainName c) (contractAddress c) (blockNumber c) s
     (snd (processWinnerPickedEvent roundResultOf token roundId timestamp c s))"
  by (auto simp: writesAtMost_def processWinnerPickedEvent_def
      blockchainSync_updateLastSyncedBlock Let_def split_beta
      split: sum.splits option.splits dest!: save_sync)

lemma writesAtMost_processEvent:
  "writesAtMost name contractAddr (ev_blockNumber event) s
     (snd (processEvent roundResultOf configChainId event name contractAddr s))"
proof -
  let ?c = "\<lparr>chainId = configChainId, transactionHash = ev_transactionHash event,
             blockNumber = ev_blockNumber event, blockchainName = name,
             contractAddress = contractAddr, logIndex = ev_index event\<rparr>"
  show ?thesis
  proof (cases "ev_args event")
    case (WinnerPicked token roundId timestamp)
    then show ?thesis
      using writesAtMost_processWinnerPickedEvent[of ?c s roundResultOf token roundId timestamp]
      by (simp add: processEvent_def)
  next
    case (TicketPurchased token roundId buyer count totalAmount timestamp)
    then show ?thesis
      using writesAtMost_processTicketPurchasedEvent[of ?c s token roundId buyer _ totalAmount timestamp]
      by (simp add: processEvent_def writesAtMost_def split: sum.splits)
  next
    case (FirstTicketBonusAwarded token roundId buyer timestamp roundStartTime roundEndTime)
    then show ?thesis
      using writesAtMost_processFirstTicketBonusEvent[of ?c s token roundId buyer timestamp
          roundStartTime roundEndTime]
      by (simp add: processEvent_def)
  next
    case (UnknownEvent other)
    then show ?thesis by (simp add: processEvent_def writesAtMost_def)
  qed
qed

lemma writesAtMost_processSolanaTicketPurchasedEvent:
  "writesAtMost name programId block s
     (snd (processSolanaTicketPurchasedEvent programId cid sg block name ix events s))"
proof (cases "\<exists>token roundId buyer count totalAmount prizeAmt commissionAmt timestamp.
     find isTicketPurchased events
       = Some (EvTicketPurchased token roundId buyer count totalAmount prizeAmt commissionAmt timestamp)")
  case False
  then show ?thesis by (simp add: processSolanaTicketPurchasedEvent_absent writesAtMost_def)
next
  case True
  then obtain token roundId buyer count totalAmount prizeAmt commissionAmt timestamp
    where ev: "find isTicketPurchased events
       = Some (EvTicketPurchased token roundId buyer count totalAmount prizeAmt commissionAmt timestamp)"
    by blast
  show ?thesis
  proof (cases "toNumber timestamp")
    case (Inl err)
    show ?thesis
      by (simp add: processSolanaTicketPurchasedEvent_unconverted[OF ev Inl] writesAtMost_def)
  next
    case conv: (Inr t)
    show ?thesis
      unfolding processSolanaTicketPurchasedEvent_converted[OF ev conv]
      by (auto simp: writesAtMost_def blockchainSync_updateLastSyncedBlock
          split: sum.splits option.splits dest!: save_sync)
  qed
qed

lemma writesAtMost_processSolanaWinnerPickedEvent:
  "writesAtMost name programId block s
     (snd (processSolanaWinnerPickedEvent env programId cid sg block name ix events s))"
  by (auto simp: writesAtMost_def processSolanaWinnerPickedEvent_def
      blockchainSync_updateLastSyncedBlock Let_def split_beta
      split: option.splits sol_event.splits sum.splits dest!: save_sync)

lemma writesAtMost_processAllRequestsCompletedEvent:
  "writesAtMost name programId block s
     (snd (processAllRequestsCompletedEvent env programId sg block name events s))"
  by (simp add: writesAtMost_def processAllRequestsCompletedEvent_def
      blockchainSync_updateLastSyncedBlock split: option.splits)

lemma writesAtMost_processSolanaPrizeClaimedEvent:
  "writesAtMost name programId block s
     (snd (processSolanaPrizeClaimedEvent programId sg block name events s))"
  by (simp add: writesAtMost_def processSolanaPrizeClaimedEvent_def
      blockchainSync_updateLastSyncedBlock Let_def split: option.splits sol_event.splits)

lemma writesAtMost_decodeSolanaInstruction:
  "writesAtMost name programId block s
     (snd (decodeSolanaInstruction env hasIdl programId cid name instruction tx sg block ix
             isHistorical s))"
  using writesAtMost_processSolanaTicketPurchasedEvent[of name programId block s cid sg ix "tx_events tx"]
    writesAtMost_processSolanaWinnerPickedEvent[of name programId block s env cid sg ix "tx_events tx"]
    writesAtMost_processAllRequestsCompletedEvent[of name programId block s env sg "tx_events tx"]
    writesAtMost_processSolanaPrizeClaimedEvent[of name programId block s sg "tx_events tx"]
  by (simp add: decodeSolanaInstruction_def Let_def split: option.splits)
     (simp add: writesAtMost_def)

text \<open>
  C4, as the code has it. A cursor write stores the position it is given: the block of the
  applied event, or the end of the fetched range. The cursor of a pair is therefore not
  lowered by \<open>updateLastSyncedBlock\<close>, by the handler of a log event or by the handler of
  a decoded instruction whenever that position is not below the stored one; nothing in the
  service compares the two.
\<close>

theorem cursor_follows_written_position:
  assumes "case getLastSyncedBlock name contractAddr s of None \<Rightarrow> True | Some old \<Rightarrow> old \<le> position"
  shows "cursorNotLowered (getLastSyncedBlock name contractAddr s)
           (getLastSyncedBlock name contractAddr (updateLastSyncedBlock name contractAddr position s))
    \<and> (ev_blockNumber event = position \<longrightarrow>
         cursorNotLowered (getLastSyncedBlock name contractAddr s)
           (getLastSyncedBlock name contractAddr
              (snd (processEvent roundResultOf configChainId event name contractAddr s))))
    \<and> cursorNotLowered (getLastSyncedBlock name contractAddr s)
           (getLastSyncedBlock name contractAddr
              (snd (decodeSolanaInstruction env hasIdl contractAddr configChainId name instruction tx
                      signature position instructionIndex isHistorical s)))"
proof (intro conjI impI)
  show "cursorNotLowered (getLastSyncedBlock name contractAddr s)
           (getLastSyncedBlock name contractAddr (updateLastSyncedBlock name contractAddr position s))"
    by (rule writesAtMost_cursor[OF _ assms]) (simp add: writesAtMost_def)
next
  assume "ev_blockNumber event = position"
  then show "cursorNotLowered (getLastSyncedBlock name contractAddr s)
           (getLastSyncedBlock name contractAddr
              (snd (processEvent roundResultOf configChainId event name contractAddr s)))"
    using assms
    by (intro writesAtMost_cursor[OF writesAtMost_processEvent]) (simp split: option.splits)
next
  show "cursorNotLowered (getLastSyncedBlock name contractAddr s)
           (getLastSyncedBlock name contractAddr
              (snd (decodeSolanaInstruction env hasIdl contractAddr configChainId name instruction tx
                      signature position instructionIndex isHistorical s)))"
    by (rule writesAtMost_cursor[OF writesAtMost_decodeSolanaInstruction assms])
qed

lemma lateStore_cursor: "getLastSyncedBlock ''ethereum'' ''0xC'' lateStore = Some 107"
  by (simp add: lateStore_def examplePurchase_def noRoundResult_def store_eval getLastSyncedBlock_def)

theorem cursor_follows_written_position_witness:
  "getLastSyncedBlock ''ethereum'' ''0xC'' lateStore = Some 107
   \<and> getLastSyncedBlock ''ethereum'' ''0xC''
       (snd (processEvent noRoundResult 1 (examplePurchase 8 ''0xD'' 110) ''ethereum'' ''0xC'' lateStore))
      = Some 110
   \<and> cursorNotLowered (getLastSyncedBlock ''ethereum'' ''0xC'' lateStore)
       (getLastSyncedBlock ''ethereum'' ''0xC''
          (snd (processEvent noRoundResult 1 (examplePurchase 8 ''0xD'' 110) ''ethereum'' ''0xC''
                  lateStore)))"
proof -
  have pre: "case getLastSyncedBlock ''ethereum'' ''0xC'' lateStore of None \<Rightarrow> True
             | Some old \<Rightarrow> old \<le> 110"
    by (simp add: lateStore_cursor)
  have blk: "ev_blockNumber (examplePurchase 8 ''0xD'' 110) = 110"
    by (simp add: examplePurchase_def)
  have after: "getLastSyncedBlock ''ethereum'' ''0xC''
       (snd (processEvent noRoundResult 1 (examplePurchase 8 ''0xD'' 110) ''ethereum'' ''0xC'' lateStore))
      = Some 110"
    by (simp add: lateStore_def examplePurchase_def noRoundResult_def store_eval
        getLastSyncedBlock_def)
  from cursor_follows_written_position[OF pre, where event = "examplePurchase 8 ''0xD'' 110"
      and roundResultOf = noRoundResult and configChainId = 1] blk
    lateStore_cursor after
  show ?thesis by simp
qed

text \<open>
  C4, as stated, fails: the service has applied the purchase of block 107 (cursor 107) when
  the log of an older block, 103, that is not stored yet reaches the handler, as it does
  when a backfill replays a range the live listener has run past. The handler stores 103.
\<close>

theorem cursor_lowered_by_older_event:
  "reachable lateStore
   \<and> getLastSyncedBlock ''ethereum'' ''0xC'' lateStore = Some 107
   \<and> getLastSyncedBlock ''ethereum'' ''0xC''
       (snd (processEvent noRoundResult 1 (examplePurchase 5 ''0xA'' 103) ''ethereum'' ''0xC'' lateStore))
      = Some 103
   \<and> \<not> cursorNotLowered (getLastSyncedBlock ''ethereum'' ''0xC'' lateStore)
       (getLastSyncedBlock ''ethereum'' ''0xC''
          (snd (processEvent noRoundResult 1 (examplePurchase 5 ''0xA'' 103) ''ethereum'' ''0xC''
                  lateStore)))"
proof -
  have reach: "reachable lateStore"
    unfolding lateStore_def by (intro reachable.intros)
  have after: "getLastSyncedBlock ''ethereum'' ''0xC''
       (snd (processEvent noRoundResult 1 (examplePurchase 5 ''0xA'' 103) ''ethereum'' ''0xC'' lateStore))
      = Some 103"
    by (simp add: lateStore_def examplePurchase_def noRoundResult_def store_eval
        getLastSyncedBlock_def)
  show ?thesis
    using reach after lateStore_cursor by (simp add: cursorNotLowered_def)
qed

subsection \<open>Reconnection attempts\<close>

lemma toLowerCase_ethereum: "toLowerCase ''ethereum'' \<noteq> ''solana''"
  by (simp add: toLowerCase_def)

text \<open>One failed attempt on a socket chain whose socket does not open.\<close>

lemma failed_socket_attempt:
  assumes cfg: "configs rt = Some config"
    and sock: "startsWith (cfg_rpcUrl config) ''wss://'' \<or> startsWith (cfg_rpcUrl config) ''ws://''"
    and evm: "toLowerCase name \<noteq> ''solana''"
    and env: "listenThrows env" "\<not> (websocketExposed env \<and> websocketOpens env)"
    and below: "reconnectAttempts rt < maxReconnectAttempts"
  shows "\<exists>rt'. reconnectBlockchain env name rt
            = (rt', Some (reconnectDelay * reconnectAttempts rt),
                    Some (reconnectDelay * (reconnectAttempts rt + 1)))
         \<and> configs rt' = Some config \<and> reconnectAttempts rt' = reconnectAttempts rt + 1
         \<and> \<not> healthCheckTimers rt' \<and> \<not> connectionStates rt'"
  using assms
  by (auto simp: reconnectBlockchain_def addBlockchain_def cleanupBlockchain_def Let_def)

lemma exhausted_attempts:
  "reconnectAttempts rt \<ge> maxReconnectAttempts \<Longrightarrow> reconnectBlockchain env name rt = (rt, None, None)"
  by (simp add: reconnectBlockchain_def Let_def split: option.splits)

lemma failed_socket_timeline:
  assumes cfg: "configs rt = Some config"
    and sock: "startsWith (cfg_rpcUrl config) ''wss://'' \<or> startsWith (cfg_rpcUrl config) ''ws://''"
    and evm: "toLowerCase name \<noteq> ''solana''"
    and envs: "\<forall>env\<in>set envs. listenThrows env \<and> \<not> (websocketExposed env \<and> websocketOpens env)"
    and a: "reconnectAttempts rt = a" "a \<le> maxReconnectAttempts"
    and len: "length envs = Suc (maxReconnectAttempts - a)"
  shows "\<exists>rt'. reconnectTimeline envs name rt
            = (rt', map (\<lambda>k. (Some (reconnectDelay * k), Some (reconnectDelay * (k + 1))))
                      [a..<maxReconnectAttempts] @ [(None, None)])
         \<and> configs rt' = Some config \<and> reconnectAttempts rt' = maxReconnectAttempts
         \<and> (a < maxReconnectAttempts \<longrightarrow> \<not> healthCheckTimers rt')"
  using cfg envs a len
proof (induction envs arbitrary: rt a)
  case Nil
  then show ?case by simp
next
  case (Cons env rest)
  show ?case
  proof (cases "a < maxReconnectAttempts")
    case False
    with Cons.prems have "a = maxReconnectAttempts" "rest = []" by simp_all
    with Cons.prems show ?thesis
      by (simp add: exhausted_attempts)
  next
    case True
    from Cons.prems(2) have env: "listenThrows env" "\<not> (websocketExposed env \<and> websocketOpens env)"
      by simp_all
    from failed_socket_attempt[OF Cons.prems(1) sock evm env] True Cons.prems(3)
    obtain rt1 where rt1: "reconnectBlockchain env name rt
            = (rt1, Some (reconnectDelay * a), Some (reconnectDelay * (a + 1)))"
        "configs rt1 = Some config" "reconnectAttempts rt1 = a + 1"
        "\<not> healthCheckTimers rt1"
      by auto
    have len': "length rest = Suc (maxReconnectAttempts - (a + 1))"
      using Cons.prems(5) True by simp
    from Cons.IH[OF rt1(2) _ rt1(3) _ len'] Cons.prems(2) True
    obtain rt' where rt': "reconnectTimeline rest name rt1
            = (rt', map (\<lambda>k. (Some (reconnectDelay * k), Some (reconnectDelay * (k + 1))))
                      [a + 1..<maxReconnectAttempts] @ [(None, None)])"
        "configs rt' = Some config" "reconnectAttempts rt' = maxReconnectAttempts"
        "a + 1 < maxReconnectAttempts \<longrightarrow> \<not> healthCheckTimers rt'"
      by auto
    have last: "a + 1 = maxReconnectAttempts \<Longrightarrow> rt' = rt1"
    proof -
      assume top: "a + 1 = maxReconnectAttempts"
      with len' obtain e where "rest = [e]" by (cases rest) auto
      then show "rt' = rt1"
        using rt'(1) rt1(3) top by (simp add: exhausted_attempts)
    qed
    have timer: "\<not> healthCheckTimers rt'"
      using rt'(4) last rt1(4) True by (cases "a + 1 < maxReconnectAttempts") auto
    show ?thesis
      using rt1(1) rt' timer True
      by (simp add: upt_conv_Cons)
  qed
qed

text \<open>
  C7, as the code has it. On a chain with a socket endpoint whose socket does not open
  and whose listeners cannot be restarted, starting from zero attempts: attempt k
  (k = 1..5) waits reconnectDelay * (k - 1), that is 0, 5, 10, 15, 20 seconds, between
  cleanup and recreation, and after its failure schedules the next call reconnectDelay * k,
  that is 5, 10, 15, 20, 25 seconds, later. The call scheduled by the fifth failure
  attempts nothing and schedules nothing; the counter stands at 5, the health timer is
  cleared, and every later call of reconnectBlockchain returns at once.
\<close>

theorem reconnect_delays_and_bound:
  assumes "configs rt = Some config"
    and "startsWith (cfg_rpcUrl config) ''wss://'' \<or> startsWith (cfg_rpcUrl config) ''ws://''"
    and "toLowerCase name \<noteq> ''solana''"
    and "\<forall>env\<in>set envs. listenThrows env \<and> \<not> (websocketExposed env \<and> websocketOpens env)"
    and "reconnectAttempts rt = 0"
    and "length envs = 6"
  shows "\<exists>rt'. reconnectTimeline envs name rt
            = (rt', [(Some 0, Some 5000), (Some 5000, Some 10000), (Some 10000, Some 15000),
                     (Some 15000, Some 20000), (Some 20000, Some 25000), (None, None)])
         \<and> reconnectAttempts rt' = 5 \<and> \<not> healthCheckTimers rt'
         \<and> (\<forall>env'. reconnectBlockchain env' name rt' = (rt', None, None))"
proof -
  have upt: "[0..<5::nat] = [0, 1, 2, 3, 4]" by code_simp
  from failed_socket_timeline[OF assms(1-5)] assms(6)
  obtain rt' where rt': "reconnectTimeline envs name rt
            = (rt', map (\<lambda>k. (Some (reconnectDelay * k), Some (reconnectDelay * (k + 1))))
                      [0..<maxReconnectAttempts] @ [(None, None)])"
      "reconnectAttempts rt' = maxReconnectAttempts" "\<not> healthCheckTimers rt'"
    by (auto simp: maxReconnectAttempts_def)
  have "reconnectBlockchain env' name rt' = (rt', None, None)" for env'
    using rt'(2) by (simp add: exhausted_attempts)
  with rt' show ?thesis
    by (simp add: maxReconnectAttempts_def reconnectDelay_def upt)
qed

lemma six_calls: "replicate 6 x = [x, x, x, x, x, x]"
  by (simp add: numeral_eq_Suc)

lemma wsRuntime_timeline:
  "reconnectTimeline (replicate 6 socketDown) ''ethereum'' wsRuntime =
     (wsRuntime\<lparr>reconnectAttempts := 5, healthCheckTimers := False\<rparr>,
      [(Some 0, Some 5000), (Some 5000, Some 10000), (Some 10000, Some 15000),
       (Some 15000, Some 20000), (Some 20000, Some 25000), (None, None)])"
  unfolding six_calls
  by (simp add: reconnectBlockchain_def addBlockchain_def cleanupBlockchain_def
      wsRuntime_def wsConfig_def socketDown_def startsWith_def toLowerCase_def
      maxReconnectAttempts_def reconnectDelay_def Let_def)

theorem reconnect_delays_and_bound_witness:
  "reconnectTimeline (replicate 6 socketDown) ''ethereum'' wsRuntime =
     (exhaustedRuntime,
      [(Some 0, Some 5000), (Some 5000, Some 10000), (Some 10000, Some 15000),
       (Some 15000, Some 20000), (Some 20000, Some 25000), (None, None)])
   \<and> reconnectAttempts exhaustedRuntime = 5
   \<and> reconnectBlockchain socketUp ''ethereum'' exhaustedRuntime = (exhaustedRuntime, None, None)"
proof -
  have cfg: "configs wsRuntime = Some wsConfig" by (simp add: wsRuntime_def)
  have sock: "startsWith (cfg_rpcUrl wsConfig) ''wss://'' \<or> startsWith (cfg_rpcUrl wsConfig) ''ws://''"
    by (simp add: wsConfig_def startsWith_def)
  have envs: "\<forall>env\<in>set (replicate 6 socketDown).
      listenThrows env \<and> \<not> (websocketExposed env \<and> websocketOpens env)"
    by (simp add: socketDown_def)
  have zero: "reconnectAttempts wsRuntime = 0" by (simp add: wsRuntime_def)
  have len: "length (replicate 6 socketDown) = 6" by simp
  from reconnect_delays_and_bound[OF cfg sock toLowerCase_ethereum envs zero len] wsRuntime_timeline
  show ?thesis
    by (auto simp: exhaustedRuntime_def)
qed

text \<open>
  C7, as stated, fails at the first attempt: the wait of attempt number 1 is
  reconnectDelay times the counter before the attempt, which is 0, not 5 seconds.
\<close>

theorem first_attempt_waits_zero:
  "fst (snd (reconnectBlockchain socketDown ''ethereum'' wsRuntime)) = Some 0
   \<and> reconnectAttempts (fst (reconnectBlockchain socketDown ''ethereum'' wsRuntime)) = 1
   \<and> reconnectDelay * 1 = 5000"
  by (simp add: reconnectBlockchain_def addBlockchain_def cleanupBlockchain_def
      wsRuntime_def wsConfig_def socketDown_def startsWith_def toLowerCase_def
      maxReconnectAttempts_def reconnectDelay_def Let_def)

text \<open>
  On a chain with an HTTP endpoint \<open>addBlockchain\<close> sets the counter back to 0 inside
  every attempt, so a failed attempt leaves the counter at 0 and schedules the next call:
  the bound of maxReconnectAttempts is never reached there.
\<close>

lemma http_attempt_resets_counter:
  assumes "configs rt = Some config"
    and "\<not> startsWith (cfg_rpcUrl config) ''wss://''" "\<not> startsWith (cfg_rpcUrl config) ''ws://''"
    and "toLowerCase name \<noteq> ''solana''"
    and "listenThrows env"
    and "reconnectAttempts rt < maxReconnectAttempts"
  shows "reconnectAttempts (fst (reconnectBlockchain env name rt)) = 0
     \<and> snd (snd (reconnectBlockchain env name rt)) = Some (reconnectDelay * (reconnectAttempts rt + 1))"
  using assms
  by (simp add: reconnectBlockchain_def addBlockchain_def cleanupBlockchain_def Let_def)

subsection \<open>Forced reconnection\<close>

text \<open>
  Below the maximum a forced reconnection starts the next attempt with the counter as it
  stands: the attempt waits reconnectDelay times that counter. On an EVM chain a successful
  attempt ends with the counter at 0; a failed attempt on a socket chain whose socket does
  not open ends with the counter one higher and the next call scheduled.
\<close>

lemma forceReconnect_below_maximum:
  assumes "configs rt = Some config" "reconnectAttempts rt < maxReconnectAttempts"
    and "toLowerCase name \<noteq> ''solana''"
  shows "fst (forceReconnect env name rt)"
    and "fst (snd (snd (forceReconnect env name rt))) = Some (reconnectDelay * reconnectAttempts rt)"
    and "\<not> listenThrows env \<Longrightarrow>
         reconnectAttempts (fst (snd (forceReconnect env name rt))) = 0
         \<and> snd (snd (snd (forceReconnect env name rt))) = None"
    and "listenThrows env \<Longrightarrow> \<not> (websocketExposed env \<and> websocketOpens env) \<Longrightarrow>
         startsWith (cfg_rpcUrl config) ''wss://'' \<or> startsWith (cfg_rpcUrl config) ''ws://'' \<Longrightarrow>
         reconnectAttempts (fst (snd (forceReconnect env name rt))) = reconnectAttempts rt + 1
         \<and> snd (snd (snd (forceReconnect env name rt)))
             = Some (reconnectDelay * (reconnectAttempts rt + 1))"
  using assms
  by (auto simp: forceReconnect_def reconnectBlockchain_def addBlockchain_def cleanupBlockchain_def
      startHealthCheck_def Let_def)

text \<open>
  C6. \<open>forceReconnect\<close> hands over to \<open>reconnectBlockchain\<close> and resets nothing. Once the
  counter has reached maxReconnectAttempts, on every chain and whatever the endpoint does:
  the forced reconnection returns true, attempts nothing, schedules nothing and leaves the
  runtime, counter included, as it was; a health probe that fails afterwards starts no
  attempt either and does not produce attempt 1.
\<close>

theorem forceReconnect_after_maximum:
  assumes "reconnectAttempts rt \<ge> maxReconnectAttempts"
  shows "forceReconnect env name rt = (True, rt, None, None)
    \<and> reconnectAttempts (fst (snd (forceReconnect env name rt))) = reconnectAttempts rt
    \<and> healthCheckTimerFired env' name False (fst (snd (forceReconnect env name rt)))
        = (rt\<lparr>connectionStates := False\<rparr>, None, None)"
proof -
  have force: "forceReconnect env name rt = (True, rt, None, None)"
    using assms by (simp add: forceReconnect_def exhausted_attempts)
  have "reconnectAttempts (rt\<lparr>connectionStates := False\<rparr>) \<ge> maxReconnectAttempts"
    using assms by simp
  then have "healthCheckTimerFired env' name False rt = (rt\<lparr>connectionStates := False\<rparr>, None, None)"
    by (simp add: healthCheckTimerFired_def exhausted_attempts)
  with force show ?thesis by simp
qed

text \<open>
  The chain of the example after its five failed attempts, with its endpoint up again:
  the operator's forced reconnection reconnects nothing and the counter stays at 5.
\<close>

theorem forceReconnect_after_maximum_witness:
  "reconnectAttempts exhaustedRuntime = 5
   \<and> \<not> healthCheckTimers exhaustedRuntime
   \<and> forceReconnect socketUp ''ethereum'' exhaustedRuntime = (True, exhaustedRuntime, None, None)
   \<and> reconnectAttempts (fst (snd (forceReconnect socketUp ''ethereum'' exhaustedRuntime))) = 5
   \<and> healthCheckTimerFired socketDown ''ethereum'' False
        (fst (snd (forceReconnect socketUp ''ethereum'' exhaustedRuntime)))
       = (exhaustedRuntime\<lparr>connectionStates := False\<rparr>, None, None)"
proof -
  have top: "reconnectAttempts exhaustedRuntime \<ge> maxReconnectAttempts"
    by (simp add: exhaustedRuntime_def maxReconnectAttempts_def)
  have state: "reconnectAttempts exhaustedRuntime = 5" "\<not> healthCheckTimers exhaustedRuntime"
    by (simp_all add: exhaustedRuntime_def)
  from forceReconnect_after_maximum[OF top, of socketUp "''ethereum''" socketDown] state
  show ?thesis by auto
qed

text \<open>
  From counter 3 on the chain of the example: the forced reconnection waits 15 seconds;
  it ends at 0 when the endpoint is up and at 4 when the socket does not open.
\<close>

lemma forceReconnect_from_three:
  "fst (snd (snd (forceReconnect socketUp ''ethereum'' (wsRuntime\<lparr>reconnectAttempts := 3\<rparr>))))
       = Some 15000
   \<and> reconnectAttempts (fst (snd (forceReconnect socketUp ''ethereum''
                                      (wsRuntime\<lparr>reconnectAttempts := 3\<rparr>)))) = 0
   \<and> reconnectAttempts (fst (snd (forceReconnect socketDown ''ethereum''
                                      (wsRuntime\<lparr>reconnectAttempts := 3\<rparr>)))) = 4"
  by (simp add: forceReconnect_def reconnectBlockchain_def addBlockchain_def cleanupBlockchain_def
      startHealthCheck_def wsRuntime_def wsConfig_def socketUp_def socketDown_def startsWith_def
      toLowerCase_def maxReconnectAttempts_def reconnectDelay_def Let_def)


end
